theory Spec2Isabelle
  imports Main "HOL-Library.Word"
begin

section \<open>Flashbots relay client: data model\<close>

text \<open>
  The Go package \<^verbatim>\<open>flashbot\<close> (src/unnamed/part_000, and its sibling copy
  src/Flashbot.go) is embedded function by function. Byte slices and Go strings are both
  \<open>string\<close> (a list of bytes). Go's \<^verbatim>\<open>uint64\<close> block numbers are \<open>64 word\<close>.
\<close>

type_synonym bytes = string

text \<open>
  Go error values. \<open>ErrorNew msg\<close> stands for \<^verbatim>\<open>errors.New(msg)\<close> and
  \<^verbatim>\<open>fmt.Errorf\<close> and for the opaque errors of the libraries; the two others are what
  \<^verbatim>\<open>json.Unmarshal\<close> returns: a body that is not JSON, and a JSON value that does not
  fit the Go type it is stored into.
\<close>

datatype error = ErrorNew string | SyntaxError | UnmarshalTypeError

text \<open>
  \<^verbatim>\<open>log.Fatal\<close> prints its argument and calls \<^verbatim>\<open>os.Exit(1)\<close>: the process ends
  and the caller never gets a value. A call therefore either ends the process
  (\<open>Fatal\<close>) or returns (\<open>Return\<close>).
\<close>

datatype 'a outcome = Fatal error | Return 'a

definition MethodSendBundle :: string where
  "MethodSendBundle = ''eth_sendBundle''"

definition MethodCallBundle :: string where
  "MethodCallBundle = ''eth_callBundle''"

definition MethodSendPrivateTransaction :: string where
  "MethodSendPrivateTransaction = ''eth_sendPrivateTransaction''"

definition MethodCancelPrivateTransaction :: string where
  "MethodCancelPrivateTransaction = ''eth_cancelPrivateTransaction''"

definition MethodEstimateGasBundle :: string where
  "MethodEstimateGasBundle = ''eth_estimateGasBundle''"

definition MethodGetUserStats :: string where
  "MethodGetUserStats = ''flashbots_getUserStats''"

definition MethodGetBundleStats :: string where
  "MethodGetBundleStats = ''flashbots_getBundleStats''"

text \<open>
  \<^verbatim>\<open>errorTransaction\<close>, the error for an empty transaction list:
  \<^verbatim>\<open>errors.New("nil")\<close> in src/unnamed/part_000, and
  \<^verbatim>\<open>errors.New("Transaction parameters are empty")\<close> in src/Flashbot.go.
\<close>

definition errorTransaction :: error where
  "errorTransaction = ErrorNew ''nil''"

text \<open>The client: relay URL and private key (the secret scalar of the ECDSA key).\<close>

record FlashbotLaunch =
  Rpc :: string
  PrivateKey :: nat

subsection \<open>Request parameter structs\<close>

text \<open>
  Fields of different structs that share a Go name carry a prefix here, since record
  fields are global constants: \<open>cb_\<close> for \<^verbatim>\<open>CallBundleParams\<close>.
  A struct literal that leaves a field out gives it the zero value (0, the nil slice
  \<open>[]\<close>, the nil map \<open>None\<close>).
\<close>

record SendBundleParams =
  Transactions :: "string list"
  BlockNumber :: string
  MinTimestamp :: int
  MaxTimestamp :: int
  RevertingTxHashes :: "string list"

record CallBundleParams =
  cb_Transactions :: "string list"
  cb_BlockNumber :: string
  StateBlockNumber :: string
  Timestamp :: int

record SendPrivateTx =
  Transaction :: string
  MaxBlockNumber :: string
  Preferences :: "(string \<times> bool) list option"

text \<open>
  \<^verbatim>\<open>requestRPC\<close> takes \<^verbatim>\<open>params ...interface{}\<close>. The gateway methods pass one of
  three structs or a bare \<^verbatim>\<open>uint64\<close>; these are the cases of \<open>param\<close>.
\<close>

datatype param =
    PSendBundle SendBundleParams
  | PCallBundle CallBundleParams
  | PSendPrivateTx SendPrivateTx
  | PUint64 "64 word"

record metaRequestParams =
  JsonRPC :: string
  Id :: int
  Method :: string
  Params :: "param list"

subsection \<open>Collaborators\<close>

text \<open>
  An outgoing HTTP request: URL, body and the headers in the order they were added, each
  under the name given to \<^verbatim>\<open>Header.Add\<close> (which files it under its canonical
  capitalisation).
\<close>

record request =
  url :: string
  body :: bytes
  headers :: "(string \<times> string) list"

text \<open>
  JSON documents as \<^verbatim>\<open>encoding/json\<close> sees them after its syntax check. A number keeps
  its literal text, since the decoder hands that text to \<^verbatim>\<open>strconv\<close>; an object keeps
  its members in document order, repeated keys included.
\<close>

datatype json =
    JNull
  | JBool bool
  | JNum string
  | JStr string
  | JArr "json list"
  | JObj "(string \<times> json) list"

text \<open>
  What the package calls in the Go libraries, the operating system and the network is a
  parameter of the model:
  \<^item> \<open>os_Getenv\<close>: \<^verbatim>\<open>os.Getenv\<close>;
  \<^item> \<open>crypto_HexToECDSA\<close>: \<^verbatim>\<open>crypto.HexToECDSA\<close>;
  \<^item> \<open>crypto_Keccak256\<close>: \<^verbatim>\<open>crypto.Keccak256\<close>;
  \<^item> \<open>crypto_Sign\<close>: \<^verbatim>\<open>crypto.Sign(hash, prv)\<close>;
  \<^item> \<open>crypto_PubkeyToAddress_Hex\<close>: \<^verbatim>\<open>crypto.PubkeyToAddress(prv.PublicKey).Hex()\<close>;
  \<^item> \<open>json_Marshal\<close>: \<^verbatim>\<open>json.Marshal\<close> of the request struct;
  \<^item> \<open>http_NewRequest\<close>: the error of \<^verbatim>\<open>http.NewRequest("POST", url, body)\<close>, if any;
  \<^item> \<open>client_Do\<close>: \<^verbatim>\<open>client.Do(req)\<close> followed by \<^verbatim>\<open>ioutil.ReadAll(resp.Body)\<close>,
    whose own error the source discards: an error of \<^verbatim>\<open>Do\<close>, or the bytes read;
  \<^item> \<open>json_parse\<close>: the syntax layer of \<^verbatim>\<open>json.Unmarshal\<close>, \<open>None\<close> for a body that
    is not valid JSON.
\<close>

record env =
  os_Getenv :: "string \<Rightarrow> string"
  crypto_HexToECDSA :: "string \<Rightarrow> error + nat"
  crypto_Keccak256 :: "bytes \<Rightarrow> bytes"
  crypto_Sign :: "bytes \<Rightarrow> nat \<Rightarrow> error + bytes"
  crypto_PubkeyToAddress_Hex :: "nat \<Rightarrow> string"
  json_Marshal :: "metaRequestParams \<Rightarrow> error + bytes"
  http_NewRequest :: "string \<Rightarrow> error option"
  client_Do :: "request \<Rightarrow> error + bytes"
  json_parse :: "bytes \<Rightarrow> json option"

text \<open>
  What a test double of the collaborators would record of a call, in order: the request
  struct handed to \<^verbatim>\<open>json.Marshal\<close>, the hash and the private key handed to
  \<^verbatim>\<open>crypto.Sign\<close>, the request handed to \<^verbatim>\<open>client.Do\<close>. \<open>sign_calls\<close> and
  \<open>network_calls\<close> count the last two kinds.
\<close>

datatype event = Marshalled metaRequestParams | Signed bytes nat | Posted request

fun is_Posted :: "event \<Rightarrow> bool" where
  "is_Posted (Posted _) = True"
| "is_Posted _ = False"

fun is_Signed :: "event \<Rightarrow> bool" where
  "is_Signed (Signed _ _) = True"
| "is_Signed _ = False"

definition network_calls :: "event list \<Rightarrow> nat" where
  "network_calls tr = length (filter is_Posted tr)"

definition sign_calls :: "event list \<Rightarrow> nat" where
  "sign_calls tr = length (filter is_Signed tr)"

section \<open>Encoding helpers of go-ethereum\<close>

definition hexdigit :: "nat \<Rightarrow> char" where
  "hexdigit n = ''0123456789abcdef'' ! (n mod 16)"

text \<open>\<^verbatim>\<open>strconv.FormatUint(i, 16)\<close>: lower-case digits, no leading zero, \<open>0\<close> for zero.\<close>

fun FormatUint16 :: "nat \<Rightarrow> string" where
  "FormatUint16 n = (if n < 16 then [hexdigit n] else FormatUint16 (n div 16) @ [hexdigit (n mod 16)])"

declare FormatUint16.simps [simp del]

text \<open>
  \<^verbatim>\<open>%d\<close> of a length: decimal digits, no leading zero (below ten, \<open>hexdigit\<close> is
  the decimal digit).
\<close>

fun FormatUint10 :: "nat \<Rightarrow> string" where
  "FormatUint10 n = (if n < 10 then [hexdigit n] else FormatUint10 (n div 10) @ [hexdigit (n mod 10)])"

declare FormatUint10.simps [simp del]

text \<open>\<^verbatim>\<open>hexutil.EncodeUint64\<close>: \<^verbatim>\<open>"0x"\<close> followed by \<^verbatim>\<open>strconv.AppendUint(_, i, 16)\<close>.\<close>

definition hexutil_EncodeUint64 :: "64 word \<Rightarrow> string" where
  "hexutil_EncodeUint64 i = ''0x'' @ FormatUint16 (unat i)"

text \<open>\<^verbatim>\<open>hexutil.Encode\<close>: \<^verbatim>\<open>"0x"\<close> followed by two lower-case hex digits per byte.\<close>

definition hex_EncodeToString :: "bytes \<Rightarrow> string" where
  "hex_EncodeToString b = concat (map (\<lambda>c. [hexdigit (of_char c div 16), hexdigit (of_char c mod 16)]) b)"

definition hexutil_Encode :: "bytes \<Rightarrow> string" where
  "hexutil_Encode b = ''0x'' @ hex_EncodeToString b"

text \<open>
  \<^verbatim>\<open>accounts.TextHash(data)\<close>: Keccak256 of
  \<^verbatim>\<open>fmt.Sprintf("\x19Ethereum Signed Message:\n%d%s", len(data), data)\<close>.
\<close>

definition accounts_TextHash :: "env \<Rightarrow> bytes \<Rightarrow> bytes" where
  "accounts_TextHash E data =
     crypto_Keccak256 E (CHR 0x19 # ''Ethereum Signed Message:'' @ [CHR 0x0A]
                          @ FormatUint10 (length data) @ data)"

section \<open>The package's functions\<close>

definition HextoBlockNumber :: "64 word \<Rightarrow> string" where
  "HextoBlockNumber blockNumber = hexutil_EncodeUint64 blockNumber"

text \<open>src/Flashbot.go names the same function \<^verbatim>\<open>WrapperBlockNumber\<close>.\<close>

definition WrapperBlockNumber :: "64 word \<Rightarrow> string" where
  "WrapperBlockNumber blockNumber = hexutil_EncodeUint64 blockNumber"

text \<open>
  \<^verbatim>\<open>fmt.Errorf("The netType is wrong!:", netType)\<close> has no verb for its argument, so
  the message ends in fmt's \<^verbatim>\<open>%!(EXTRA string=...)\<close> note.
\<close>

definition RelayDefaultRPC :: "string \<Rightarrow> string \<times> error option" where
  "RelayDefaultRPC netType =
     (if netType = ''mainnet'' then (''https://relay.flashbots.net'', None)
      else if netType = ''goerli'' then (''https://relay-goerli.flashbots.net'', None)
      else ('''', Some (ErrorNew (''The netType is wrong!:%!(EXTRA string='' @ netType @ '')''))))"

definition HexToECDSA :: "env \<Rightarrow> string \<Rightarrow> nat outcome" where
  "HexToECDSA E privateKey =
     (case crypto_HexToECDSA E privateKey of
        Inl err \<Rightarrow> Fatal err
      | Inr key \<Rightarrow> Return key)"

text \<open>
  \<^verbatim>\<open>New\<close> reads the key from the environment variable \<^verbatim>\<open>PRIVATE_KEY\<close>
  (src/unnamed/part_000) or \<^verbatim>\<open>PrivateKey\<close> (src/Flashbot.go); the variable's name is
  the first argument of \<open>New_from\<close>, and the two copies are otherwise the same but for the
  text of the fatal message.
\<close>

definition New_from :: "string \<Rightarrow> string \<Rightarrow> env \<Rightarrow> string \<Rightarrow> FlashbotLaunch outcome" where
  "New_from var msg E relayRPC =
     (let (rpc, _) = RelayDefaultRPC relayRPC;
          privateKey = os_Getenv E var
      in if privateKey = '''' then Fatal (ErrorNew msg)
         else (case HexToECDSA E privateKey of
                 Fatal e \<Rightarrow> Fatal e
               | Return key \<Rightarrow> Return \<lparr>Rpc = rpc, PrivateKey = key\<rparr>))"

definition New :: "env \<Rightarrow> string \<Rightarrow> FlashbotLaunch outcome" where
  "New = New_from ''PRIVATE_KEY'' ''The PrivateKey is nil, please export it !''"

definition New_Flashbot_go :: "env \<Rightarrow> string \<Rightarrow> FlashbotLaunch outcome" where
  "New_Flashbot_go = New_from ''PrivateKey'' ''The PrivateKey is nil!''"

definition flashbotHeader :: "env \<Rightarrow> bytes \<Rightarrow> nat \<Rightarrow> string" where
  "flashbotHeader E signature privateKey =
     crypto_PubkeyToAddress_Hex E privateKey @ '':'' @ hexutil_Encode signature"

text \<open>
  The struct literal \<^verbatim>\<open>requestArgs\<close> of \<^verbatim>\<open>requestRPC\<close>. \<^verbatim>\<open>append(params, params...)\<close>
  is the variadic slice followed by itself.
\<close>

definition requestArgs :: "string \<Rightarrow> param list \<Rightarrow> metaRequestParams" where
  "requestArgs Method' params =
     \<lparr>JsonRPC = ''2.0'', Id = 1, Method = Method', Params = params @ params\<rparr>"

text \<open>
  \<^verbatim>\<open>requestRPC\<close>: the three \<^verbatim>\<open>log.Fatal\<close> exits, the signature whose error is
  discarded (\<^verbatim>\<open>headerReady, _ := crypto.Sign(...)\<close>, so \<^verbatim>\<open>headerReady\<close> is nil when
  signing fails), the three headers, the dispatch. The trace grows by the struct given to
  \<^verbatim>\<open>json.Marshal\<close>, the signature and the request given to \<^verbatim>\<open>client.Do\<close>.
\<close>

definition requestRPC :: "env \<Rightarrow> FlashbotLaunch \<Rightarrow> string \<Rightarrow> param list \<Rightarrow> event list
    \<Rightarrow> bytes outcome \<times> event list" where
  "requestRPC E f Method' params tr =
     (case json_Marshal E (requestArgs Method' params) of
        Inl err \<Rightarrow> (Fatal err, tr @ [Marshalled (requestArgs Method' params)])
      | Inr payload \<Rightarrow>
          (case http_NewRequest E (Rpc f) of
             Some err \<Rightarrow> (Fatal err, tr @ [Marshalled (requestArgs Method' params)])
           | None \<Rightarrow>
               (let hash = accounts_TextHash E (hexutil_Encode (crypto_Keccak256 E payload));
                    headerReady = (case crypto_Sign E hash (PrivateKey f) of
                                     Inl _ \<Rightarrow> []
                                   | Inr sig \<Rightarrow> sig);
                    signature = flashbotHeader E headerReady (PrivateKey f);
                    req = \<lparr>url = Rpc f, body = payload,
                           headers = [(''content-type'', ''application/json''),
                                      (''Accept'', ''application/json''),
                                      (''X-Flashbots-Signature'', signature)]\<rparr>;
                    tr' = tr @ [Marshalled (requestArgs Method' params),
                                Signed hash (PrivateKey f), Posted req]
                in (case client_Do E req of
                      Inl err \<Rightarrow> (Fatal err, tr')
                    | Inr res \<Rightarrow> (Return res, tr')))))"

section \<open>Response structs and their decoding\<close>

text \<open>
  The response structs of src/unnamed/part_000 (in src/Flashbot.go
  \<^verbatim>\<open>SendBundleResponse\<close> has the untagged fields \<^verbatim>\<open>Raw\<close> and \<^verbatim>\<open>StatusCode\<close> as
  well, and still none for a relay error). Fields that share a Go name carry the
  struct's prefix: \<open>sb_\<close> (\<^verbatim>\<open>SendBundleResponse\<close>), \<open>cbr_\<close> (\<^verbatim>\<open>CallBundleResponse\<close>),
  \<open>pt_\<close> (\<^verbatim>\<open>SendPrivateTxResponse\<close>), \<open>us_\<close> (\<^verbatim>\<open>UserStatsResponse\<close>), \<open>tx_\<close>
  (\<^verbatim>\<open>txResult\<close>), \<open>cr_\<close> (\<^verbatim>\<open>callResult\<close>). A nil pointer is \<open>None\<close>. Go's \<^verbatim>\<open>uint\<close>
  and \<^verbatim>\<open>int\<close> are taken as 64 bits wide; a decoded number is a \<open>nat\<close> or an \<open>int\<close>
  within that range.
\<close>

record errorResult =
  Code :: int
  Message :: string

record bundleResult =
  BundleHash :: string

record txResult =
  tx_CoinbaseDiff :: string
  tx_EthSentToCoinbase :: string
  FromAddress :: string
  tx_GasFees :: string
  GasPrice :: string
  GasUsed :: nat
  ToAddress :: string
  TxHash :: string
  Value :: string
  tx_Error :: string

record callResult =
  BundleGasPrice :: string
  cr_BundleHash :: string
  CoinbaseDiff :: string
  EthSentToCoinbase :: string
  GasFees :: string
  Results :: "txResult list"
  cr_StateBlockNumber :: nat
  TotalGasUsed :: nat

record userStats =
  IsHighPriority :: bool
  AllTimeMinerPayments :: string
  AllTimeGasSimulated :: string
  Last7dMinerPayments :: string
  Last7dGasSimulated :: string
  Last1dMinerPayments :: string
  Last1dGasSimulated :: string

record SendBundleResponse =
  sb_ID :: nat
  sb_Version :: string
  sb_Result :: "bundleResult option"

record CallBundleResponse =
  cbr_ID :: nat
  cbr_Version :: string
  cbr_Result :: "callResult option"
  cbr_Error :: "errorResult option"
  Raw :: string
  StatusCode :: int

record SendPrivateTxResponse =
  pt_JsonRPC :: string
  pt_Id :: int
  pt_Result :: string

record UserStatsResponse =
  us_ID :: nat
  us_Version :: string
  us_Result :: "userStats option"

text \<open>The zero values that \<^verbatim>\<open>new(T)\<close> and a fresh slice element hold.\<close>

definition zero_errorResult :: errorResult where
  "zero_errorResult = \<lparr>Code = 0, Message = ''''\<rparr>"

definition zero_bundleResult :: bundleResult where
  "zero_bundleResult = \<lparr>BundleHash = ''''\<rparr>"

definition zero_txResult :: txResult where
  "zero_txResult = \<lparr>tx_CoinbaseDiff = '''', tx_EthSentToCoinbase = '''', FromAddress = '''',
     tx_GasFees = '''', GasPrice = '''', GasUsed = 0, ToAddress = '''', TxHash = '''',
     Value = '''', tx_Error = ''''\<rparr>"

definition zero_callResult :: callResult where
  "zero_callResult = \<lparr>BundleGasPrice = '''', cr_BundleHash = '''', CoinbaseDiff = '''',
     EthSentToCoinbase = '''', GasFees = '''', Results = [], cr_StateBlockNumber = 0,
     TotalGasUsed = 0\<rparr>"

definition zero_userStats :: userStats where
  "zero_userStats = \<lparr>IsHighPriority = False, AllTimeMinerPayments = '''',
     AllTimeGasSimulated = '''', Last7dMinerPayments = '''', Last7dGasSimulated = '''',
     Last1dMinerPayments = '''', Last1dGasSimulated = ''''\<rparr>"

definition new_SendBundleResponse :: SendBundleResponse where
  "new_SendBundleResponse = \<lparr>sb_ID = 0, sb_Version = '''', sb_Result = None\<rparr>"

definition new_CallBundleResponse :: CallBundleResponse where
  "new_CallBundleResponse = \<lparr>cbr_ID = 0, cbr_Version = '''', cbr_Result = None,
     cbr_Error = None, Raw = '''', StatusCode = 0\<rparr>"

definition new_SendPrivateTxResponse :: SendPrivateTxResponse where
  "new_SendPrivateTxResponse = \<lparr>pt_JsonRPC = '''', pt_Id = 0, pt_Result = ''''\<rparr>"

definition new_UserStatsResponse :: UserStatsResponse where
  "new_UserStatsResponse = \<lparr>us_ID = 0, us_Version = '''', us_Result = None\<rparr>"

subsection \<open>How \<^verbatim>\<open>encoding/json\<close> stores a value into a Go variable\<close>

text \<open>
  Every store takes the JSON value and the variable's current content and gives the new
  content, or \<open>None\<close> when the decoder records an \<^verbatim>\<open>UnmarshalTypeError\<close>. The decoder
  goes on after such an error, but \<^verbatim>\<open>Unmarshal\<close> returns it in the end and every
  gateway method then returns \<^verbatim>\<open>nil, err\<close>, so what the struct holds after an error is
  never seen.

  \<^item> \<^verbatim>\<open>null\<close> leaves a string, number, bool or struct as it is and sets a pointer or
    slice to nil;
  \<^item> a number goes through \<^verbatim>\<open>strconv.ParseUint\<close> or \<^verbatim>\<open>strconv.ParseInt\<close> (base 10,
    64 bits) on its literal text: a fraction, an exponent or a value out of range is a
    type error;
  \<^item> an object key selects the field whose JSON name equals it, exactly or else ignoring
    case. The names of each struct here differ even when case is ignored, so one
    case-insensitive comparison decides. Case is folded for ASCII letters only: the two
    non-ASCII letters that Go's folding also maps to \<open>k\<close> and \<open>s\<close> are left out;
  \<^item> a pointer to a struct is allocated when nil and decoded into otherwise; an element of
    a slice is decoded into the element already at that index, or into a zero value
    (storage beyond the slice's length is taken to be zeroed).
\<close>

definition lower :: "char \<Rightarrow> char" where
  "lower c = (if 65 \<le> (of_char c :: nat) \<and> (of_char c :: nat) \<le> 90
              then char_of ((of_char c :: nat) + 32) else c)"

definition key_is :: "string \<Rightarrow> string \<Rightarrow> bool" where
  "key_is k name = (map lower k = map lower name)"

definition is_digits :: "string \<Rightarrow> bool" where
  "is_digits s = (s \<noteq> [] \<and> list_all (\<lambda>c. 48 \<le> (of_char c :: nat) \<and> (of_char c :: nat) \<le> 57) s)"

definition digits_value :: "string \<Rightarrow> nat" where
  "digits_value s = foldl (\<lambda>a c. 10 * a + ((of_char c :: nat) - 48)) 0 s"

definition ParseUint :: "string \<Rightarrow> nat option" where
  "ParseUint s = (if is_digits s \<and> digits_value s < 2 ^ 64 then Some (digits_value s) else None)"

definition ParseInt :: "string \<Rightarrow> int option" where
  "ParseInt s =
     (case s of
        [] \<Rightarrow> None
      | c # r \<Rightarrow>
          if c = CHR ''-''
          then (if is_digits r \<and> digits_value r \<le> 2 ^ 63 then Some (- int (digits_value r)) else None)
          else (if is_digits s \<and> digits_value s < 2 ^ 63 then Some (int (digits_value s)) else None))"

definition store_string :: "json \<Rightarrow> string \<Rightarrow> string option" where
  "store_string j cur = (case j of JNull \<Rightarrow> Some cur | JStr s \<Rightarrow> Some s | _ \<Rightarrow> None)"

definition store_bool :: "json \<Rightarrow> bool \<Rightarrow> bool option" where
  "store_bool j cur = (case j of JNull \<Rightarrow> Some cur | JBool b \<Rightarrow> Some b | _ \<Rightarrow> None)"

definition store_uint :: "json \<Rightarrow> nat \<Rightarrow> nat option" where
  "store_uint j cur = (case j of JNull \<Rightarrow> Some cur | JNum s \<Rightarrow> ParseUint s | _ \<Rightarrow> None)"

definition store_int :: "json \<Rightarrow> int \<Rightarrow> int option" where
  "store_int j cur = (case j of JNull \<Rightarrow> Some cur | JNum s \<Rightarrow> ParseInt s | _ \<Rightarrow> None)"

fun object_fields :: "(string \<Rightarrow> json \<Rightarrow> 'r \<Rightarrow> 'r option) \<Rightarrow> (string \<times> json) list \<Rightarrow> 'r \<Rightarrow> 'r option" where
  "object_fields fld [] r = Some r"
| "object_fields fld ((k, v) # kvs) r =
     (case fld k v r of None \<Rightarrow> None | Some r' \<Rightarrow> object_fields fld kvs r')"

definition store_struct :: "(string \<Rightarrow> json \<Rightarrow> 'r \<Rightarrow> 'r option) \<Rightarrow> json \<Rightarrow> 'r \<Rightarrow> 'r option" where
  "store_struct fld j cur =
     (case j of JNull \<Rightarrow> Some cur | JObj kvs \<Rightarrow> object_fields fld kvs cur | _ \<Rightarrow> None)"

definition store_ptr :: "'r \<Rightarrow> (string \<Rightarrow> json \<Rightarrow> 'r \<Rightarrow> 'r option) \<Rightarrow> json \<Rightarrow> 'r option \<Rightarrow> 'r option option" where
  "store_ptr zero fld j cur =
     (case j of
        JNull \<Rightarrow> Some None
      | _ \<Rightarrow> map_option Some (store_struct fld j (case cur of None \<Rightarrow> zero | Some x \<Rightarrow> x)))"

fun store_elems :: "'r \<Rightarrow> (string \<Rightarrow> json \<Rightarrow> 'r \<Rightarrow> 'r option) \<Rightarrow> json list \<Rightarrow> 'r list \<Rightarrow> 'r list option" where
  "store_elems zero fld [] cur = Some []"
| "store_elems zero fld (j # js) cur =
     (case store_struct fld j (case cur of [] \<Rightarrow> zero | x # _ \<Rightarrow> x) of
        None \<Rightarrow> None
      | Some y \<Rightarrow> map_option ((#) y) (store_elems zero fld js (tl cur)))"

definition store_slice :: "'r \<Rightarrow> (string \<Rightarrow> json \<Rightarrow> 'r \<Rightarrow> 'r option) \<Rightarrow> json \<Rightarrow> 'r list \<Rightarrow> 'r list option" where
  "store_slice zero fld j cur =
     (case j of JNull \<Rightarrow> Some [] | JArr js \<Rightarrow> store_elems zero fld js cur | _ \<Rightarrow> None)"

subsection \<open>The fields of each struct, by JSON name\<close>

definition errorResult_field :: "string \<Rightarrow> json \<Rightarrow> errorResult \<Rightarrow> errorResult option" where
  "errorResult_field k v r =
     (if key_is k ''code'' then map_option (\<lambda>x. r\<lparr>Code := x\<rparr>) (store_int v (Code r))
      else if key_is k ''message'' then map_option (\<lambda>x. r\<lparr>Message := x\<rparr>) (store_string v (Message r))
      else Some r)"

definition bundleResult_field :: "string \<Rightarrow> json \<Rightarrow> bundleResult \<Rightarrow> bundleResult option" where
  "bundleResult_field k v r =
     (if key_is k ''bundleHash'' then map_option (\<lambda>x. r\<lparr>BundleHash := x\<rparr>) (store_string v (BundleHash r))
      else Some r)"

definition txResult_field :: "string \<Rightarrow> json \<Rightarrow> txResult \<Rightarrow> txResult option" where
  "txResult_field k v r =
     (if key_is k ''coinbaseDiff'' then map_option (\<lambda>x. r\<lparr>tx_CoinbaseDiff := x\<rparr>) (store_string v (tx_CoinbaseDiff r))
      else if key_is k ''ethSentToCoinbase'' then map_option (\<lambda>x. r\<lparr>tx_EthSentToCoinbase := x\<rparr>) (store_string v (tx_EthSentToCoinbase r))
      else if key_is k ''fromAddress'' then map_option (\<lambda>x. r\<lparr>FromAddress := x\<rparr>) (store_string v (FromAddress r))
      else if key_is k ''gasFees'' then map_option (\<lambda>x. r\<lparr>tx_GasFees := x\<rparr>) (store_string v (tx_GasFees r))
      else if key_is k ''gasPrice'' then map_option (\<lambda>x. r\<lparr>GasPrice := x\<rparr>) (store_string v (GasPrice r))
      else if key_is k ''gasUsed'' then map_option (\<lambda>x. r\<lparr>GasUsed := x\<rparr>) (store_uint v (GasUsed r))
      else if key_is k ''toAddress'' then map_option (\<lambda>x. r\<lparr>ToAddress := x\<rparr>) (store_string v (ToAddress r))
      else if key_is k ''txHash'' then map_option (\<lambda>x. r\<lparr>TxHash := x\<rparr>) (store_string v (TxHash r))
      else if key_is k ''value'' then map_option (\<lambda>x. r\<lparr>Value := x\<rparr>) (store_string v (Value r))
      else if key_is k ''error'' then map_option (\<lambda>x. r\<lparr>tx_Error := x\<rparr>) (store_string v (tx_Error r))
      else Some r)"

definition callResult_field :: "string \<Rightarrow> json \<Rightarrow> callResult \<Rightarrow> callResult option" where
  "callResult_field k v r =
     (if key_is k ''bundleGasPrice'' then map_option (\<lambda>x. r\<lparr>BundleGasPrice := x\<rparr>) (store_string v (BundleGasPrice r))
      else if key_is k ''bundleHash'' then map_option (\<lambda>x. r\<lparr>cr_BundleHash := x\<rparr>) (store_string v (cr_BundleHash r))
      else if key_is k ''coinbaseDiff'' then map_option (\<lambda>x. r\<lparr>CoinbaseDiff := x\<rparr>) (store_string v (CoinbaseDiff r))
      else if key_is k ''ethSentToCoinbase'' then map_option (\<lambda>x. r\<lparr>EthSentToCoinbase := x\<rparr>) (store_string v (EthSentToCoinbase r))
      else if key_is k ''gasFees'' then map_option (\<lambda>x. r\<lparr>GasFees := x\<rparr>) (store_string v (GasFees r))
      else if key_is k ''results'' then map_option (\<lambda>x. r\<lparr>Results := x\<rparr>) (store_slice zero_txResult txResult_field v (Results r))
      else if key_is k ''stateBlockNumber'' then map_option (\<lambda>x. r\<lparr>cr_StateBlockNumber := x\<rparr>) (store_uint v (cr_StateBlockNumber r))
      else if key_is k ''totalGasUsed'' then map_option (\<lambda>x. r\<lparr>TotalGasUsed := x\<rparr>) (store_uint v (TotalGasUsed r))
      else Some r)"

definition userStats_field :: "string \<Rightarrow> json \<Rightarrow> userStats \<Rightarrow> userStats option" where
  "userStats_field k v r =
     (if key_is k ''is_high_priority'' then map_option (\<lambda>x. r\<lparr>IsHighPriority := x\<rparr>) (store_bool v (IsHighPriority r))
      else if key_is k ''all_time_miner_payments'' then map_option (\<lambda>x. r\<lparr>AllTimeMinerPayments := x\<rparr>) (store_string v (AllTimeMinerPayments r))
      else if key_is k ''all_time_gas_simulated'' then map_option (\<lambda>x. r\<lparr>AllTimeGasSimulated := x\<rparr>) (store_string v (AllTimeGasSimulated r))
      else if key_is k ''last_7d_miner_payments'' then map_option (\<lambda>x. r\<lparr>Last7dMinerPayments := x\<rparr>) (store_string v (Last7dMinerPayments r))
      else if key_is k ''last_7d_gas_simulated'' then map_option (\<lambda>x. r\<lparr>Last7dGasSimulated := x\<rparr>) (store_string v (Last7dGasSimulated r))
      else if key_is k ''last_1d_miner_payments'' then map_option (\<lambda>x. r\<lparr>Last1dMinerPayments := x\<rparr>) (store_string v (Last1dMinerPayments r))
      else if key_is k ''last_1d_gas_simulated'' then map_option (\<lambda>x. r\<lparr>Last1dGasSimulated := x\<rparr>) (store_string v (Last1dGasSimulated r))
      else Some r)"

definition SendBundleResponse_field :: "string \<Rightarrow> json \<Rightarrow> SendBundleResponse \<Rightarrow> SendBundleResponse option" where
  "SendBundleResponse_field k v r =
     (if key_is k ''id'' then map_option (\<lambda>x. r\<lparr>sb_ID := x\<rparr>) (store_uint v (sb_ID r))
      else if key_is k ''jsonrpc'' then map_option (\<lambda>x. r\<lparr>sb_Version := x\<rparr>) (store_string v (sb_Version r))
      else if key_is k ''result'' then map_option (\<lambda>x. r\<lparr>sb_Result := x\<rparr>) (store_ptr zero_bundleResult bundleResult_field v (sb_Result r))
      else Some r)"

definition CallBundleResponse_field :: "string \<Rightarrow> json \<Rightarrow> CallBundleResponse \<Rightarrow> CallBundleResponse option" where
  "CallBundleResponse_field k v r =
     (if key_is k ''id'' then map_option (\<lambda>x. r\<lparr>cbr_ID := x\<rparr>) (store_uint v (cbr_ID r))
      else if key_is k ''jsonrpc'' then map_option (\<lambda>x. r\<lparr>cbr_Version := x\<rparr>) (store_string v (cbr_Version r))
      else if key_is k ''result'' then map_option (\<lambda>x. r\<lparr>cbr_Result := x\<rparr>) (store_ptr zero_callResult callResult_field v (cbr_Result r))
      else if key_is k ''error'' then map_option (\<lambda>x. r\<lparr>cbr_Error := x\<rparr>) (store_ptr zero_errorResult errorResult_field v (cbr_Error r))
      else if key_is k ''Raw'' then map_option (\<lambda>x. r\<lparr>Raw := x\<rparr>) (store_string v (Raw r))
      else if key_is k ''StatusCode'' then map_option (\<lambda>x. r\<lparr>StatusCode := x\<rparr>) (store_int v (StatusCode r))
      else Some r)"

definition SendPrivateTxResponse_field :: "string \<Rightarrow> json \<Rightarrow> SendPrivateTxResponse \<Rightarrow> SendPrivateTxResponse option" where
  "SendPrivateTxResponse_field k v r =
     (if key_is k ''jsonrpc'' then map_option (\<lambda>x. r\<lparr>pt_JsonRPC := x\<rparr>) (store_string v (pt_JsonRPC r))
      else if key_is k ''id'' then map_option (\<lambda>x. r\<lparr>pt_Id := x\<rparr>) (store_int v (pt_Id r))
      else if key_is k ''result'' then map_option (\<lambda>x. r\<lparr>pt_Result := x\<rparr>) (store_string v (pt_Result r))
      else Some r)"

definition UserStatsResponse_field :: "string \<Rightarrow> json \<Rightarrow> UserStatsResponse \<Rightarrow> UserStatsResponse option" where
  "UserStatsResponse_field k v r =
     (if key_is k ''id'' then map_option (\<lambda>x. r\<lparr>us_ID := x\<rparr>) (store_uint v (us_ID r))
      else if key_is k ''jsonrpc'' then map_option (\<lambda>x. r\<lparr>us_Version := x\<rparr>) (store_string v (us_Version r))
      else if key_is k ''result'' then map_option (\<lambda>x. r\<lparr>us_Result := x\<rparr>) (store_ptr zero_userStats userStats_field v (us_Result r))
      else Some r)"

text \<open>
  \<^verbatim>\<open>json.Unmarshal(data, target)\<close> for a pointer to one of the structs above: the syntax
  check first, then the store into the struct. The Go pair \<^verbatim>\<open>(value, error)\<close> of a
  gateway method is a sum: \<open>Inl err\<close> for \<^verbatim>\<open>nil, err\<close> and \<open>Inr v\<close> for \<^verbatim>\<open>v, nil\<close>.
\<close>

definition json_Unmarshal :: "env \<Rightarrow> (string \<Rightarrow> json \<Rightarrow> 'r \<Rightarrow> 'r option) \<Rightarrow> bytes \<Rightarrow> 'r \<Rightarrow> error + 'r" where
  "json_Unmarshal E fld data target =
     (case json_parse E data of
        None \<Rightarrow> Inl SyntaxError
      | Some j \<Rightarrow>
          (case store_struct fld j target of
             None \<Rightarrow> Inl UnmarshalTypeError
           | Some r \<Rightarrow> Inr r))"

section \<open>The gateway methods\<close>

definition SendBundle :: "env \<Rightarrow> FlashbotLaunch \<Rightarrow> string list \<Rightarrow> 64 word \<Rightarrow> event list
    \<Rightarrow> (error + SendBundleResponse) outcome \<times> event list" where
  "SendBundle E f transactions blockNumber tr =
     (if length transactions < 1 then (Return (Inl errorTransaction), tr)
      else
        (let args = \<lparr>Transactions = transactions,
                     BlockNumber = HextoBlockNumber blockNumber,
                     MinTimestamp = 0, MaxTimestamp = 0, RevertingTxHashes = []\<rparr>
         in (case requestRPC E f MethodSendBundle [PSendBundle args] tr of
               (Fatal e, tr') \<Rightarrow> (Fatal e, tr')
             | (Return resp, tr') \<Rightarrow>
                 (Return (json_Unmarshal E SendBundleResponse_field resp new_SendBundleResponse), tr'))))"

definition CallBundle :: "env \<Rightarrow> FlashbotLaunch \<Rightarrow> string list \<Rightarrow> 64 word \<Rightarrow> event list
    \<Rightarrow> (error + CallBundleResponse) outcome \<times> event list" where
  "CallBundle E f transaction blockNumber tr =
     (if length transaction < 1 then (Return (Inl errorTransaction), tr)
      else
        (let args = \<lparr>cb_Transactions = transaction,
                     cb_BlockNumber = HextoBlockNumber blockNumber,
                     StateBlockNumber = ''latest'',
                     Timestamp = 1615920932\<rparr>
         in (case requestRPC E f MethodCallBundle [PCallBundle args] tr of
               (Fatal e, tr') \<Rightarrow> (Fatal e, tr')
             | (Return resp, tr') \<Rightarrow>
                 (Return (json_Unmarshal E CallBundleResponse_field resp new_CallBundleResponse), tr'))))"

definition SendPrivateTransaction :: "env \<Rightarrow> FlashbotLaunch \<Rightarrow> string \<Rightarrow> string \<Rightarrow> event list
    \<Rightarrow> (error + SendPrivateTxResponse) outcome \<times> event list" where
  "SendPrivateTransaction E f tx maxBlockNumber tr =
     (let args = \<lparr>Transaction = tx, MaxBlockNumber = maxBlockNumber, Preferences = None\<rparr>
      in (case requestRPC E f MethodSendPrivateTransaction [PSendPrivateTx args] tr of
            (Fatal e, tr') \<Rightarrow> (Fatal e, tr')
          | (Return resp, tr') \<Rightarrow>
              (Return (json_Unmarshal E SendPrivateTxResponse_field resp new_SendPrivateTxResponse), tr')))"

definition GetUserStats :: "env \<Rightarrow> FlashbotLaunch \<Rightarrow> 64 word \<Rightarrow> event list
    \<Rightarrow> (error + UserStatsResponse) outcome \<times> event list" where
  "GetUserStats E f blockNumber tr =
     (case requestRPC E f MethodGetUserStats [PUint64 blockNumber] tr of
        (Fatal e, tr') \<Rightarrow> (Fatal e, tr')
      | (Return resp, tr') \<Rightarrow>
          (Return (json_Unmarshal E UserStatsResponse_field resp new_UserStatsResponse), tr'))"

section \<open>The specification's words\<close>

text \<open>
  The request signer as the specification lists its steps: the digest of the serialized
  envelope, its hex encoding (the code's \<^verbatim>\<open>hexutil.Encode\<close>, which writes \<^verbatim>\<open>0x\<close> first),
  the personal-message hash of that text (the fixed domain separator, then the byte length
  in decimal, then the text), the signature over that hash, and the header value
  \<^verbatim>\<open><address>:<hex signature>\<close>. A signing failure gives no header.
\<close>

definition spec_domain_separator :: bytes where
  "spec_domain_separator = CHR 0x19 # ''Ethereum Signed Message:'' @ [CHR 0x0A]"

definition spec_personalMessageHash :: "env \<Rightarrow> bytes \<Rightarrow> bytes" where
  "spec_personalMessageHash E input =
     crypto_Keccak256 E (spec_domain_separator @ FormatUint10 (length input) @ input)"

definition spec_signature_header :: "env \<Rightarrow> nat \<Rightarrow> bytes \<Rightarrow> error + string" where
  "spec_signature_header E key serializedEnvelope =
     (let digest = crypto_Keccak256 E serializedEnvelope;
          hexEncodedDigest = hexutil_Encode digest;
          messageHash = spec_personalMessageHash E hexEncodedDigest
      in (case crypto_Sign E messageHash key of
            Inl e \<Rightarrow> Inl e
          | Inr sg \<Rightarrow> Inr (crypto_PubkeyToAddress_Hex E key @ '':'' @ hexutil_Encode sg)))"

text \<open>
  The error reply of the specification's example: the \<^verbatim>\<open>error\<close> member with its code
  and message, alone, or after the \<^verbatim>\<open>jsonrpc\<close> and \<^verbatim>\<open>id\<close> members that echo the
  request (\<open>full\<close>).
\<close>

definition spec_error_reply :: "bool \<Rightarrow> string \<Rightarrow> string \<Rightarrow> json" where
  "spec_error_reply full code msg =
     JObj ((if full then [(''jsonrpc'', JStr ''2.0''), (''id'', JNum ''1'')] else [])
           @ [(''error'', JObj [(''code'', JNum code), (''message'', JStr msg)])])"

text \<open>
  A well-formed JSON-RPC error reply in general. Its members, in any order and each at
  most once, are \<^verbatim>\<open>error\<close> (required), \<^verbatim>\<open>jsonrpc\<close> (a string) and \<^verbatim>\<open>id\<close>; the
  error object holds, in any order and each at most once, \<^verbatim>\<open>code\<close> (required, an
  integer of at most 64 bits written in plain decimal digits), \<^verbatim>\<open>message\<close> (required, a string) and \<^verbatim>\<open>data\<close>
  (any value). JSON-RPC lets the \<^verbatim>\<open>id\<close> be a string, a number or null; the client
  sends the number 1, and the response structs keep the id in a \<^verbatim>\<open>uint\<close> or an
  \<^verbatim>\<open>int\<close>, so the id is taken here as null or a non-negative integer below \<open>2 ^ 63\<close>
  written in plain decimal digits, which both hold. \<open>spec_reply_code\<close> and \<open>spec_reply_message\<close> read the code and the
  message of a reply.
\<close>

fun spec_wf_error_member :: "string \<times> json \<Rightarrow> bool" where
  "spec_wf_error_member (k, v) =
     (if k = ''code'' then (case v of JNum s \<Rightarrow> ParseInt s \<noteq> None | _ \<Rightarrow> False)
      else if k = ''message'' then (case v of JStr m \<Rightarrow> True | _ \<Rightarrow> False)
      else k = ''data'')"

fun spec_wf_reply_member :: "string \<times> json \<Rightarrow> bool" where
  "spec_wf_reply_member (k, v) =
     (if k = ''jsonrpc'' then (case v of JStr s \<Rightarrow> True | _ \<Rightarrow> False)
      else if k = ''id'' then
        (case v of
           JNull \<Rightarrow> True
         | JNum s \<Rightarrow> (case ParseUint s of Some n \<Rightarrow> n < 2 ^ 63 | None \<Rightarrow> False)
         | _ \<Rightarrow> False)
      else if k = ''error'' then
        (case v of
           JObj evs \<Rightarrow> distinct (map fst evs) \<and> list_all spec_wf_error_member evs
                        \<and> map_of evs ''code'' \<noteq> None \<and> map_of evs ''message'' \<noteq> None
         | _ \<Rightarrow> False)
      else False)"

definition spec_wellformed_error_reply :: "json \<Rightarrow> bool" where
  "spec_wellformed_error_reply j =
     (case j of
        JObj kvs \<Rightarrow> distinct (map fst kvs) \<and> list_all spec_wf_reply_member kvs
                     \<and> map_of kvs ''error'' \<noteq> None
      | _ \<Rightarrow> False)"

definition spec_error_code :: "(string \<times> json) list \<Rightarrow> int option" where
  "spec_error_code evs = (case map_of evs ''code'' of Some (JNum s) \<Rightarrow> ParseInt s | _ \<Rightarrow> None)"

definition spec_error_message :: "(string \<times> json) list \<Rightarrow> string option" where
  "spec_error_message evs = (case map_of evs ''message'' of Some (JStr m) \<Rightarrow> Some m | _ \<Rightarrow> None)"

definition spec_reply_code :: "json \<Rightarrow> int option" where
  "spec_reply_code j =
     (case j of
        JObj kvs \<Rightarrow> (case map_of kvs ''error'' of Some (JObj evs) \<Rightarrow> spec_error_code evs | _ \<Rightarrow> None)
      | _ \<Rightarrow> None)"

definition spec_reply_message :: "json \<Rightarrow> string option" where
  "spec_reply_message j =
     (case j of
        JObj kvs \<Rightarrow> (case map_of kvs ''error'' of Some (JObj evs) \<Rightarrow> spec_error_message evs | _ \<Rightarrow> None)
      | _ \<Rightarrow> None)"

section \<open>Test doubles\<close>

text \<open>
  Collaborators for running the model on concrete inputs. \<open>relay_stub\<close> is a relay that
  answers every request with the specification's example
  \<^verbatim>\<open>{"error":{"code":-32000,"message":"bundle too large"}}\<close>; its hash keeps the first
  byte of its input, its signer returns the hash it is given, its serializer writes the
  method name, its environment holds the private key 1 under both variable names, and a URL that starts with a colon
  is refused. \<open>down_stub\<close> is the same with a network that fails, \<open>unserializable_stub\<close>
  the same with a serializer that fails.
\<close>

definition example_body :: bytes where
  \<open>example_body = ''{"error":{"code":-32000,"message":"bundle too large"}}''\<close>

definition stub_key_hex :: string where
  "stub_key_hex = ''0000000000000000000000000000000000000000000000000000000000000001''"

definition relay_stub :: env where
  "relay_stub =
     \<lparr>os_Getenv = (\<lambda>v. if v = ''PRIVATE_KEY'' \<or> v = ''PrivateKey'' then stub_key_hex else ''''),
      crypto_HexToECDSA = (\<lambda>s. if s = stub_key_hex then Inr 1 else Inl (ErrorNew ''invalid key'')),
      crypto_Keccak256 = (\<lambda>b. take 1 b),
      crypto_Sign = (\<lambda>h k. Inr h),
      crypto_PubkeyToAddress_Hex = (\<lambda>k. ''0x7E5F4552091A69125d5DfCb7b8C2659029395Bdf''),
      json_Marshal = (\<lambda>rq. Inr (Method rq)),
      http_NewRequest = (\<lambda>u. if take 1 u = '':'' then Some (ErrorNew ''missing protocol scheme'') else None),
      client_Do = (\<lambda>req. Inr example_body),
      json_parse = (\<lambda>b. if b = example_body
                          then Some (spec_error_reply False ''-32000'' ''bundle too large'')
                          else None)\<rparr>"



definition stub_client :: FlashbotLaunch where
  "stub_client = \<lparr>Rpc = ''https://relay.flashbots.net'', PrivateKey = 1\<rparr>"


text \<open>
  \<open>full_reply_stub\<close> is \<open>relay_stub\<close> with another reply: the same error with the
  members in another order, a null id and a \<^verbatim>\<open>data\<close> member.
\<close>

definition example_body_full :: bytes where
  \<open>example_body_full =
     ''{"id":null,"error":{"message":"bundle too large","data":[1],"code":-32000},"jsonrpc":"2.0"}''\<close>

definition example_doc_full :: json where
  "example_doc_full =
     JObj [(''id'', JNull),
           (''error'', JObj [(''message'', JStr ''bundle too large''),
                             (''data'', JArr [JNum ''1'']),
                             (''code'', JNum ''-32000'')]),
           (''jsonrpc'', JStr ''2.0'')]"

definition full_reply_stub :: env where
  "full_reply_stub =
     relay_stub\<lparr>client_Do := (\<lambda>req. Inr example_body_full),
                json_parse := (\<lambda>b. if b = example_body_full then Some example_doc_full else None)\<rparr>"

section \<open>Properties\<close>

subsection \<open>What \<^verbatim>\<open>requestRPC\<close> does, step by step\<close>

lemma requestRPC_dispatch:
  assumes "json_Marshal E (requestArgs M ps) = Inr payload"
      and "http_NewRequest E (Rpc f) = None"
  shows "requestRPC E f M ps tr =
     (let hash = accounts_TextHash E (hexutil_Encode (crypto_Keccak256 E payload));
          req = \<lparr>url = Rpc f, body = payload,
                 headers = [(''content-type'', ''application/json''),
                            (''Accept'', ''application/json''),
                            (''X-Flashbots-Signature'',
                             flashbotHeader E (case crypto_Sign E hash (PrivateKey f) of
                                                 Inl _ \<Rightarrow> [] | Inr sg \<Rightarrow> sg) (PrivateKey f))]\<rparr>
      in (case client_Do E req of Inl err \<Rightarrow> Fatal err | Inr res \<Rightarrow> Return res,
          tr @ [Marshalled (requestArgs M ps), Signed hash (PrivateKey f), Posted req]))"
  using assms by (simp add: requestRPC_def Let_def split: sum.splits)

lemma requestRPC_trace_prefix:
  "\<exists>rest. snd (requestRPC E f M ps tr) = tr @ Marshalled (requestArgs M ps) # rest"
  by (simp add: requestRPC_def Let_def split: sum.splits option.splits)

lemma requestRPC_returns_body:
  assumes "\<forall>rq. \<exists>p. json_Marshal E rq = Inr p"
      and "http_NewRequest E (Rpc f) = None"
      and "\<forall>req. client_Do E req = Inr res"
  shows "fst (requestRPC E f M ps tr) = Return res"
proof -
  from assms(1) obtain p where "json_Marshal E (requestArgs M ps) = Inr p" by blast
  then show ?thesis
    using assms(2,3) by (simp add: requestRPC_dispatch Let_def)
qed

subsection \<open>Each gateway method after its call of \<^verbatim>\<open>requestRPC\<close>\<close>

lemma SendBundle_after_requestRPC:
  assumes "transactions \<noteq> []"
  shows "fst (SendBundle E f transactions blockNumber tr) =
     (case fst (requestRPC E f MethodSendBundle
                 [PSendBundle \<lparr>Transactions = transactions,
                    BlockNumber = HextoBlockNumber blockNumber,
                    MinTimestamp = 0, MaxTimestamp = 0, RevertingTxHashes = []\<rparr>] tr) of
        Fatal e \<Rightarrow> Fatal e
      | Return resp \<Rightarrow> Return (json_Unmarshal E SendBundleResponse_field resp new_SendBundleResponse))"
  using assms by (simp add: SendBundle_def Let_def split: prod.splits outcome.splits)

lemma CallBundle_after_requestRPC:
  assumes "transaction \<noteq> []"
  shows "fst (CallBundle E f transaction blockNumber tr) =
     (case fst (requestRPC E f MethodCallBundle
                 [PCallBundle \<lparr>cb_Transactions = transaction,
                    cb_BlockNumber = HextoBlockNumber blockNumber,
                    StateBlockNumber = ''latest'', Timestamp = 1615920932\<rparr>] tr) of
        Fatal e \<Rightarrow> Fatal e
      | Return resp \<Rightarrow> Return (json_Unmarshal E CallBundleResponse_field resp new_CallBundleResponse))"
  using assms by (simp add: CallBundle_def Let_def split: prod.splits outcome.splits)

lemma SendPrivateTransaction_after_requestRPC:
  "fst (SendPrivateTransaction E f tx maxBlockNumber tr) =
     (case fst (requestRPC E f MethodSendPrivateTransaction
                 [PSendPrivateTx \<lparr>Transaction = tx, MaxBlockNumber = maxBlockNumber,
                    Preferences = None\<rparr>] tr) of
        Fatal e \<Rightarrow> Fatal e
      | Return resp \<Rightarrow> Return (json_Unmarshal E SendPrivateTxResponse_field resp new_SendPrivateTxResponse))"
  by (simp add: SendPrivateTransaction_def Let_def split: prod.splits outcome.splits)

lemma GetUserStats_after_requestRPC:
  "fst (GetUserStats E f blockNumber tr) =
     (case fst (requestRPC E f MethodGetUserStats [PUint64 blockNumber] tr) of
        Fatal e \<Rightarrow> Fatal e
      | Return resp \<Rightarrow> Return (json_Unmarshal E UserStatsResponse_field resp new_UserStatsResponse))"
  by (simp add: GetUserStats_def split: prod.splits outcome.splits)

subsection \<open>Decoding an error reply\<close>

lemma key_is_simps:
  "key_is ''jsonrpc'' ''id'' = False" "key_is ''jsonrpc'' ''jsonrpc'' = True"
  "key_is ''id'' ''id'' = True" "key_is ''id'' ''jsonrpc'' = False"
  "key_is ''error'' ''id'' = False" "key_is ''error'' ''jsonrpc'' = False"
  "key_is ''error'' ''result'' = False" "key_is ''error'' ''error'' = True"
  "key_is ''code'' ''code'' = True" "key_is ''message'' ''code'' = False"
  "key_is ''message'' ''message'' = True"
  by (simp_all add: key_is_def lower_def)

lemma ParseUint_1: "ParseUint ''1'' = Some 1"
  by (simp add: ParseUint_def is_digits_def digits_value_def)

lemma key_is_names:
  "key_is ''data'' ''code'' = False" "key_is ''data'' ''message'' = False"
  "key_is ''code'' ''message'' = False"
  "key_is ''jsonrpc'' ''result'' = False" "key_is ''jsonrpc'' ''error'' = False"
  "key_is ''id'' ''result'' = False" "key_is ''id'' ''error'' = False"
  "key_is ''error'' ''Raw'' = False" "key_is ''error'' ''StatusCode'' = False"
  "key_is ''jsonrpc'' ''Raw'' = False" "key_is ''jsonrpc'' ''StatusCode'' = False"
  "key_is ''id'' ''Raw'' = False" "key_is ''id'' ''StatusCode'' = False"
  by (simp_all add: key_is_def lower_def)

lemma ParseUint_ParseInt:
  assumes "ParseUint s = Some n" and "n < 2 ^ 63"
  shows "ParseInt s = Some (int n)"
proof -
  from assms(1) have d: "is_digits s" and v: "digits_value s = n"
    by (auto simp: ParseUint_def split: if_splits)
  from d obtain c r where s: "s = c # r" and c: "48 \<le> (of_char c :: nat)"
    by (cases s) (auto simp: is_digits_def)
  from c have "c \<noteq> CHR ''-''" by auto
  with d v assms(2) s show ?thesis
    by (simp add: ParseInt_def)
qed

lemma spec_wf_error_member_cases:
  assumes "spec_wf_error_member (k, v)"
  shows "(k = ''code'' \<and> (\<exists>s c. v = JNum s \<and> ParseInt s = Some c))
       \<or> (k = ''message'' \<and> (\<exists>m. v = JStr m))
       \<or> k = ''data''"
proof (cases "k = ''code''")
  case True
  with assms show ?thesis by (cases v) simp_all
next
  case False
  note nc = this
  show ?thesis
  proof (cases "k = ''message''")
    case True
    with assms nc show ?thesis by (cases v) simp_all
  next
    case False
    with assms nc show ?thesis by simp
  qed
qed

lemma decode_errorResult_members:
  assumes "list_all spec_wf_error_member evs" and "distinct (map fst evs)"
  shows "\<exists>r'. object_fields errorResult_field evs r = Some r'
           \<and> Code r' = (case spec_error_code evs of Some c \<Rightarrow> c | None \<Rightarrow> Code r)
           \<and> Message r' = (case spec_error_message evs of Some m \<Rightarrow> m | None \<Rightarrow> Message r)"
  using assms
proof (induction evs arbitrary: r)
  case Nil
  then show ?case by (simp add: spec_error_code_def spec_error_message_def)
next
  case (Cons kv evs)
  obtain k v where kv: "kv = (k, v)" by (cases kv)
  from Cons.prems have wf: "spec_wf_error_member (k, v)"
    and rest: "list_all spec_wf_error_member evs"
    and dist: "distinct (map fst evs)" and fresh: "k \<notin> fst ` set evs"
    by (simp_all add: kv del: spec_wf_error_member.simps)
  from fresh have nk: "map_of evs k = None" by (simp add: map_of_eq_None_iff)
  from spec_wf_error_member_cases [OF wf]
  consider (code) s c where "k = ''code''" "v = JNum s" "ParseInt s = Some c"
    | (message) m where "k = ''message''" "v = JStr m"
    | (data) "k = ''data''"
    by blast
  then show ?case
  proof cases
    case code
    have step: "errorResult_field k v r = Some (r\<lparr>Code := c\<rparr>)"
      by (simp add: code errorResult_field_def key_is_simps store_int_def)
    from Cons.IH [OF rest dist, of "r\<lparr>Code := c\<rparr>"] obtain r' where
      r': "object_fields errorResult_field evs (r\<lparr>Code := c\<rparr>) = Some r'"
      and c': "Code r' = (case spec_error_code evs of Some c' \<Rightarrow> c' | None \<Rightarrow> Code (r\<lparr>Code := c\<rparr>))"
      and m': "Message r' = (case spec_error_message evs of Some m \<Rightarrow> m | None \<Rightarrow> Message (r\<lparr>Code := c\<rparr>))"
      by blast
    from nk code(1) have none: "spec_error_code evs = None"
      by (simp add: spec_error_code_def)
    have new: "spec_error_code ((k, v) # evs) = Some c"
      by (simp add: code spec_error_code_def)
    have same: "spec_error_message ((k, v) # evs) = spec_error_message evs"
      by (simp add: code(1) spec_error_message_def)
    show ?thesis
      using r' c' m' by (simp add: kv step none new same split: option.splits)
  next
    case message
    have step: "errorResult_field k v r = Some (r\<lparr>Message := m\<rparr>)"
      by (simp add: message errorResult_field_def key_is_simps store_string_def)
    from Cons.IH [OF rest dist, of "r\<lparr>Message := m\<rparr>"] obtain r' where
      r': "object_fields errorResult_field evs (r\<lparr>Message := m\<rparr>) = Some r'"
      and c': "Code r' = (case spec_error_code evs of Some c' \<Rightarrow> c' | None \<Rightarrow> Code (r\<lparr>Message := m\<rparr>))"
      and m': "Message r' = (case spec_error_message evs of Some m' \<Rightarrow> m' | None \<Rightarrow> Message (r\<lparr>Message := m\<rparr>))"
      by blast
    from nk message(1) have none: "spec_error_message evs = None"
      by (simp add: spec_error_message_def)
    have new: "spec_error_message ((k, v) # evs) = Some m"
      by (simp add: message spec_error_message_def)
    have same: "spec_error_code ((k, v) # evs) = spec_error_code evs"
      by (simp add: message(1) spec_error_code_def)
    show ?thesis
      using r' c' m' by (simp add: kv step none new same split: option.splits)
  next
    case data
    have step: "errorResult_field k v r = Some r"
      by (simp add: data errorResult_field_def key_is_names)
    from Cons.IH [OF rest dist, of r] obtain r' where
      r': "object_fields errorResult_field evs r = Some r'"
      and c': "Code r' = (case spec_error_code evs of Some c' \<Rightarrow> c' | None \<Rightarrow> Code r)"
      and m': "Message r' = (case spec_error_message evs of Some m' \<Rightarrow> m' | None \<Rightarrow> Message r)"
      by blast
    have same: "spec_error_code ((k, v) # evs) = spec_error_code evs"
      "spec_error_message ((k, v) # evs) = spec_error_message evs"
      by (simp_all add: data spec_error_code_def spec_error_message_def)
    show ?thesis
      using r' c' m' by (simp add: kv step same split: option.splits)
  qed
qed

lemma spec_wf_reply_member_cases:
  assumes "spec_wf_reply_member (k, v)"
  shows "(k = ''jsonrpc'' \<and> (\<exists>s. v = JStr s))
       \<or> (k = ''id'' \<and> (v = JNull \<or> (\<exists>s n. v = JNum s \<and> ParseUint s = Some n \<and> n < 2 ^ 63)))
       \<or> (k = ''error'' \<and> (\<exists>evs. v = JObj evs \<and> distinct (map fst evs)
              \<and> list_all spec_wf_error_member evs
              \<and> map_of evs ''code'' \<noteq> None \<and> map_of evs ''message'' \<noteq> None))"
proof (cases "k = ''jsonrpc''")
  case True
  with assms show ?thesis by (cases v) simp_all
next
  case False
  note nj = this
  show ?thesis
  proof (cases "k = ''id''")
    case True
    with assms nj show ?thesis by (cases v) (simp_all split: option.splits)
  next
    case False
    note ni = this
    show ?thesis
    proof (cases "k = ''error''")
      case True
      with assms nj ni show ?thesis by (cases v) (auto dest: map_of_SomeD)
    next
      case False
      with assms nj ni show ?thesis by simp
    qed
  qed
qed

lemma object_fields_total:
  assumes "\<And>k v r. (k, v) \<in> set kvs \<Longrightarrow> \<exists>r'. fld k v r = Some r'"
  shows "\<exists>r'. object_fields fld kvs r = Some r'"
  using assms
proof (induction kvs arbitrary: r)
  case Nil
  show ?case by simp
next
  case (Cons kv kvs)
  obtain k v where kv: "kv = (k, v)" by (cases kv)
  from Cons.prems [of k v r] obtain r1 where r1: "fld k v r = Some r1"
    by (auto simp: kv)
  have "\<exists>r'. object_fields fld kvs r1 = Some r'"
    by (rule Cons.IH) (simp add: Cons.prems)
  with r1 show ?case by (simp add: kv)
qed

lemma SendBundleResponse_field_wf:
  assumes "spec_wf_reply_member (k, v)"
  shows "\<exists>r'. SendBundleResponse_field k v r = Some r'"
  using spec_wf_reply_member_cases [OF assms]
  by (auto simp: SendBundleResponse_field_def key_is_simps store_uint_def store_string_def)

lemma UserStatsResponse_field_wf:
  assumes "spec_wf_reply_member (k, v)"
  shows "\<exists>r'. UserStatsResponse_field k v r = Some r'"
  using spec_wf_reply_member_cases [OF assms]
  by (auto simp: UserStatsResponse_field_def key_is_simps store_uint_def store_string_def)

lemma SendPrivateTxResponse_field_wf:
  assumes "spec_wf_reply_member (k, v)"
  shows "\<exists>r'. SendPrivateTxResponse_field k v r = Some r'"
  using spec_wf_reply_member_cases [OF assms]
  by (auto simp: SendPrivateTxResponse_field_def key_is_simps store_int_def store_string_def
      ParseUint_ParseInt)

lemma decode_wellformed_error_reply:
  assumes "spec_wellformed_error_reply j"
  shows "\<exists>r. store_struct SendBundleResponse_field j new_SendBundleResponse = Some r"
    and "\<exists>r. store_struct SendPrivateTxResponse_field j new_SendPrivateTxResponse = Some r"
    and "\<exists>r. store_struct UserStatsResponse_field j new_UserStatsResponse = Some r"
proof -
  from assms obtain kvs where j: "j = JObj kvs" and wf: "list_all spec_wf_reply_member kvs"
    by (cases j) (simp_all add: spec_wellformed_error_reply_def)
  have m: "spec_wf_reply_member (k, v)" if "(k, v) \<in> set kvs" for k v
    using wf [unfolded list_all_iff] that by (rule bspec)
  show "\<exists>r. store_struct SendBundleResponse_field j new_SendBundleResponse = Some r"
    unfolding j store_struct_def json.case
    by (rule object_fields_total) (rule SendBundleResponse_field_wf, rule m)
  show "\<exists>r. store_struct SendPrivateTxResponse_field j new_SendPrivateTxResponse = Some r"
    unfolding j store_struct_def json.case
    by (rule object_fields_total) (rule SendPrivateTxResponse_field_wf, rule m)
  show "\<exists>r. store_struct UserStatsResponse_field j new_UserStatsResponse = Some r"
    unfolding j store_struct_def json.case
    by (rule object_fields_total) (rule UserStatsResponse_field_wf, rule m)
qed

lemma decode_error_member:
  assumes "distinct (map fst evs)" and "list_all spec_wf_error_member evs"
      and "map_of evs ''code'' \<noteq> None" and "map_of evs ''message'' \<noteq> None"
  shows "\<exists>c m. spec_error_code evs = Some c \<and> spec_error_message evs = Some m
           \<and> store_ptr zero_errorResult errorResult_field (JObj evs) cur
               = Some (Some \<lparr>Code = c, Message = m\<rparr>)"
proof -
  have wf: "spec_wf_error_member (k, v)" if "(k, v) \<in> set evs" for k v
    using assms(2) [unfolded list_all_iff] that by (rule bspec)
  from assms(3) obtain vc where vc: "map_of evs ''code'' = Some vc" by blast
  from spec_wf_error_member_cases [OF wf [OF map_of_SomeD [OF vc]]]
  obtain s c where "vc = JNum s" "ParseInt s = Some c" by auto
  with vc have c: "spec_error_code evs = Some c" by (simp add: spec_error_code_def)
  from assms(4) obtain vm where vm: "map_of evs ''message'' = Some vm" by blast
  from spec_wf_error_member_cases [OF wf [OF map_of_SomeD [OF vm]]]
  obtain m where "vm = JStr m" by auto
  with vm have m: "spec_error_message evs = Some m" by (simp add: spec_error_message_def)
  let ?cur = "case cur of None \<Rightarrow> zero_errorResult | Some x \<Rightarrow> x"
  from decode_errorResult_members [OF assms(2,1), of ?cur] obtain r' where
    r': "object_fields errorResult_field evs ?cur = Some r'" and "Code r' = c" and "Message r' = m"
    by (auto simp: c m)
  then have "r' = \<lparr>Code = c, Message = m\<rparr>" by (cases r') simp
  with r' c m show ?thesis
    by (simp add: store_ptr_def store_struct_def)
qed

lemma decode_CallBundleResponse_members:
  assumes "list_all spec_wf_reply_member kvs" and "distinct (map fst kvs)"
  shows "\<exists>r'. object_fields CallBundleResponse_field kvs r = Some r'
           \<and> cbr_Result r' = cbr_Result r
           \<and> (\<forall>evs. map_of kvs ''error'' = Some (JObj evs) \<longrightarrow>
                 (\<exists>c m. spec_error_code evs = Some c \<and> spec_error_message evs = Some m
                        \<and> cbr_Error r' = Some \<lparr>Code = c, Message = m\<rparr>))
           \<and> (map_of kvs ''error'' = None \<longrightarrow> cbr_Error r' = cbr_Error r)"
  using assms
proof (induction kvs arbitrary: r)
  case Nil
  show ?case by simp
next
  case (Cons kv kvs)
  obtain k v where kv: "kv = (k, v)" by (cases kv)
  from Cons.prems have wf: "spec_wf_reply_member (k, v)"
    and rest: "list_all spec_wf_reply_member kvs"
    and dist: "distinct (map fst kvs)" and fresh: "k \<notin> fst ` set kvs"
    by (simp_all add: kv del: spec_wf_reply_member.simps)
  from fresh have nk: "map_of kvs k = None" by (simp add: map_of_eq_None_iff)
  from spec_wf_reply_member_cases [OF wf]
  consider (version) s where "k = ''jsonrpc''" "v = JStr s"
    | (null_id) "k = ''id''" "v = JNull"
    | (id) s n where "k = ''id''" "v = JNum s" "ParseUint s = Some n"
    | (err) evs where "k = ''error''" "v = JObj evs" "distinct (map fst evs)"
        "list_all spec_wf_error_member evs" "map_of evs ''code'' \<noteq> None"
        "map_of evs ''message'' \<noteq> None"
    by blast
  then show ?case
  proof cases
    case version
    have step: "CallBundleResponse_field k v r = Some (r\<lparr>cbr_Version := s\<rparr>)"
      by (simp add: version CallBundleResponse_field_def key_is_simps store_string_def)
    have same: "map_of ((k, v) # kvs) ''error'' = map_of kvs ''error''"
      by (simp add: version(1))
    from Cons.IH [OF rest dist, of "r\<lparr>cbr_Version := s\<rparr>"] show ?thesis
      unfolding kv object_fields.simps step option.case same by simp
  next
    case null_id
    have step: "CallBundleResponse_field k v r = Some r"
      by (simp add: null_id CallBundleResponse_field_def key_is_simps store_uint_def)
    have same: "map_of ((k, v) # kvs) ''error'' = map_of kvs ''error''"
      by (simp add: null_id(1))
    from Cons.IH [OF rest dist, of r] show ?thesis
      unfolding kv object_fields.simps step option.case same by simp
  next
    case id
    have step: "CallBundleResponse_field k v r = Some (r\<lparr>cbr_ID := n\<rparr>)"
      by (simp add: id CallBundleResponse_field_def key_is_simps store_uint_def)
    have same: "map_of ((k, v) # kvs) ''error'' = map_of kvs ''error''"
      by (simp add: id(1))
    from Cons.IH [OF rest dist, of "r\<lparr>cbr_ID := n\<rparr>"] show ?thesis
      unfolding kv object_fields.simps step option.case same by simp
  next
    case err
    from decode_error_member [OF err(3-6), of "cbr_Error r"] obtain c m where
      c: "spec_error_code evs = Some c" and m: "spec_error_message evs = Some m"
      and st: "store_ptr zero_errorResult errorResult_field (JObj evs) (cbr_Error r)
                 = Some (Some \<lparr>Code = c, Message = m\<rparr>)"
      by blast
    let ?r1 = "r\<lparr>cbr_Error := Some \<lparr>Code = c, Message = m\<rparr>\<rparr>"
    have step: "CallBundleResponse_field k v r = Some ?r1"
      by (simp add: err(1,2) CallBundleResponse_field_def key_is_simps st)
    have here: "map_of ((k, v) # kvs) ''error'' = Some (JObj evs)"
      by (simp add: err(1,2))
    from nk err(1) have none: "map_of kvs ''error'' = None" by simp
    from Cons.IH [OF rest dist, of ?r1] none obtain r' where
      "object_fields CallBundleResponse_field kvs ?r1 = Some r'"
      "cbr_Result r' = cbr_Result r" "cbr_Error r' = Some \<lparr>Code = c, Message = m\<rparr>"
      by auto
    then show ?thesis
      unfolding kv object_fields.simps step option.case here using c m by simp
  qed
qed

lemma decode_wellformed_error_reply_CallBundle:
  assumes "spec_wellformed_error_reply j"
      and "spec_reply_code j = Some c" and "spec_reply_message j = Some msg"
  shows "\<exists>r. store_struct CallBundleResponse_field j new_CallBundleResponse = Some r
           \<and> cbr_Result r = None \<and> cbr_Error r = Some \<lparr>Code = c, Message = msg\<rparr>"
proof -
  from assms(1) obtain kvs where j: "j = JObj kvs" and wf: "list_all spec_wf_reply_member kvs"
    and dist: "distinct (map fst kvs)"
    by (cases j) (simp_all add: spec_wellformed_error_reply_def)
  from assms(2) obtain evs where e: "map_of kvs ''error'' = Some (JObj evs)"
    and c: "spec_error_code evs = Some c"
    by (auto simp: j spec_reply_code_def split: option.splits json.splits)
  from assms(3) e have m: "spec_error_message evs = Some msg"
    by (simp add: j spec_reply_message_def)
  from decode_CallBundleResponse_members [OF wf dist, of new_CallBundleResponse] e c m
  show ?thesis
    by (auto simp: j store_struct_def new_CallBundleResponse_def)
qed

lemma object_fields_fails:
  assumes "(k, v) \<in> set kvs" and "\<And>r. fld k v r = None"
  shows "object_fields fld kvs r = None"
  using assms(1)
proof (induction kvs arbitrary: r)
  case Nil
  then show ?case by simp
next
  case (Cons kv kvs)
  obtain k' v' where kv: "kv = (k', v')" by (cases kv)
  show ?case
  proof (cases "fld k' v' r")
    case None
    then show ?thesis by (simp add: kv)
  next
    case (Some r1)
    with assms(2) [of r] have "(k, v) \<noteq> (k', v')" by auto
    with Cons.prems have "(k, v) \<in> set kvs" by (auto simp: kv)
    from Cons.IH [OF this, of r1] Some show ?thesis by (simp add: kv)
  qed
qed

lemma string_id_reply_is_decode_error:
  assumes "json_parse E res = Some (JObj kvs)" and "(''id'', JStr s) \<in> set kvs"
  shows "json_Unmarshal E SendBundleResponse_field res new_SendBundleResponse = Inl UnmarshalTypeError"
    and "json_Unmarshal E CallBundleResponse_field res new_CallBundleResponse = Inl UnmarshalTypeError"
    and "json_Unmarshal E SendPrivateTxResponse_field res new_SendPrivateTxResponse = Inl UnmarshalTypeError"
    and "json_Unmarshal E UserStatsResponse_field res new_UserStatsResponse = Inl UnmarshalTypeError"
proof -
  have 1: "SendBundleResponse_field ''id'' (JStr s) r = None" for r
    by (simp add: SendBundleResponse_field_def key_is_simps store_uint_def)
  have 2: "CallBundleResponse_field ''id'' (JStr s) r = None" for r
    by (simp add: CallBundleResponse_field_def key_is_simps store_uint_def)
  have 3: "SendPrivateTxResponse_field ''id'' (JStr s) r = None" for r
    by (simp add: SendPrivateTxResponse_field_def key_is_simps store_int_def)
  have 4: "UserStatsResponse_field ''id'' (JStr s) r = None" for r
    by (simp add: UserStatsResponse_field_def key_is_simps store_uint_def)
  show "json_Unmarshal E SendBundleResponse_field res new_SendBundleResponse = Inl UnmarshalTypeError"
    by (simp add: json_Unmarshal_def assms(1) store_struct_def object_fields_fails [where fld = SendBundleResponse_field, OF assms(2) 1])
  show "json_Unmarshal E CallBundleResponse_field res new_CallBundleResponse = Inl UnmarshalTypeError"
    by (simp add: json_Unmarshal_def assms(1) store_struct_def object_fields_fails [where fld = CallBundleResponse_field, OF assms(2) 2])
  show "json_Unmarshal E SendPrivateTxResponse_field res new_SendPrivateTxResponse = Inl UnmarshalTypeError"
    by (simp add: json_Unmarshal_def assms(1) store_struct_def object_fields_fails [where fld = SendPrivateTxResponse_field, OF assms(2) 3])
  show "json_Unmarshal E UserStatsResponse_field res new_UserStatsResponse = Inl UnmarshalTypeError"
    by (simp add: json_Unmarshal_def assms(1) store_struct_def object_fields_fails [where fld = UserStatsResponse_field, OF assms(2) 4])
qed

lemma spec_error_reply_wellformed:
  assumes "ParseInt code = Some c"
  shows "spec_wellformed_error_reply (spec_error_reply full code msg)"
    and "spec_reply_code (spec_error_reply full code msg) = Some c"
    and "spec_reply_message (spec_error_reply full code msg) = Some msg"
  using assms
  by (cases full; simp add: spec_wellformed_error_reply_def spec_error_reply_def spec_reply_code_def
      spec_reply_message_def spec_error_code_def spec_error_message_def ParseUint_1)+

subsection \<open>The claims\<close>

text \<open>
  C1 (the code departs from it). The specification asks that the envelope carry the
  parameter objects of the method exactly once. In the code,
  \<^verbatim>\<open>append(params, params...)\<close> in \<^verbatim>\<open>requestRPC\<close> puts the list into the envelope
  twice. For \<^verbatim>\<open>SendBundle([]string{"0x02f86b"}, 1)\<close> the
  struct handed to \<^verbatim>\<open>json.Marshal\<close> holds the one \<^verbatim>\<open>SendBundleParams\<close> object two times.
\<close>

theorem SendBundle_envelope_params_doubled:
  "take 1 (snd (SendBundle relay_stub stub_client [''0x02f86b''] 1 [])) =
     [Marshalled \<lparr>JsonRPC = ''2.0'', Id = 1, Method = ''eth_sendBundle'',
        Params = [PSendBundle \<lparr>Transactions = [''0x02f86b''], BlockNumber = ''0x1'',
                     MinTimestamp = 0, MaxTimestamp = 0, RevertingTxHashes = []\<rparr>,
                  PSendBundle \<lparr>Transactions = [''0x02f86b''], BlockNumber = ''0x1'',
                     MinTimestamp = 0, MaxTimestamp = 0, RevertingTxHashes = []\<rparr>]\<rparr>]"
  by (simp add: SendBundle_def requestRPC_def requestArgs_def relay_stub_def stub_client_def
      MethodSendBundle_def HextoBlockNumber_def hexutil_EncodeUint64_def FormatUint16.simps
      hexdigit_def Let_def)

text \<open>
  C2. For every serialized envelope body the code sends, the value of the
  \<^verbatim>\<open>X-Flashbots-Signature\<close> header is the one the specification's pipeline gives for that
  body and the client's key: Keccak256 of the body, hex encoding of the digest,
  personal-message hash of the hex text, signature over that hash, then address, colon and
  hex signature. The hash that is signed is the personal-message hash, and the request
  carries the body unchanged.
\<close>

theorem requestRPC_signs_by_the_pipeline:
  assumes "json_Marshal E (requestArgs M ps) = Inr payload"
      and "http_NewRequest E (Rpc f) = None"
      and "spec_signature_header E (PrivateKey f) payload = Inr h"
  shows "snd (requestRPC E f M ps tr) =
           tr @ [Marshalled (requestArgs M ps),
                 Signed (spec_personalMessageHash E (hexutil_Encode (crypto_Keccak256 E payload)))
                        (PrivateKey f),
                 Posted \<lparr>url = Rpc f, body = payload,
                         headers = [(''content-type'', ''application/json''),
                                    (''Accept'', ''application/json''),
                                    (''X-Flashbots-Signature'', h)]\<rparr>]"
proof -
  have same: "accounts_TextHash E x = spec_personalMessageHash E x" for x
    by (simp add: accounts_TextHash_def spec_personalMessageHash_def spec_domain_separator_def)
  from assms(3) obtain sg where
    sg: "crypto_Sign E (spec_personalMessageHash E (hexutil_Encode (crypto_Keccak256 E payload)))
           (PrivateKey f) = Inr sg"
    and h: "h = crypto_PubkeyToAddress_Hex E (PrivateKey f) @ '':'' @ hexutil_Encode sg"
    by (auto simp: spec_signature_header_def Let_def split: sum.splits)
  show ?thesis
    using assms(1,2) sg h
    by (simp add: requestRPC_dispatch same flashbotHeader_def Let_def split: sum.splits)
qed

theorem requestRPC_signs_by_the_pipeline_witness:
  "snd (requestRPC relay_stub stub_client MethodSendBundle [] []) =
     [Marshalled (requestArgs MethodSendBundle []),
      Signed (spec_personalMessageHash relay_stub
                (hexutil_Encode (crypto_Keccak256 relay_stub ''eth_sendBundle''))) 1,
      Posted \<lparr>url = ''https://relay.flashbots.net'', body = ''eth_sendBundle'',
              headers = [(''content-type'', ''application/json''),
                         (''Accept'', ''application/json''),
                         (''X-Flashbots-Signature'',
                          ''0x7E5F4552091A69125d5DfCb7b8C2659029395Bdf:0x19'')]\<rparr>]"
proof -
  have m: "json_Marshal relay_stub (requestArgs MethodSendBundle []) = Inr ''eth_sendBundle''"
    by (simp add: relay_stub_def requestArgs_def MethodSendBundle_def)
  have n: "http_NewRequest relay_stub (Rpc stub_client) = None"
    by (simp add: relay_stub_def stub_client_def)
  have s: "spec_signature_header relay_stub (PrivateKey stub_client) ''eth_sendBundle''
             = Inr ''0x7E5F4552091A69125d5DfCb7b8C2659029395Bdf:0x19''"
    by (simp add: spec_signature_header_def spec_personalMessageHash_def relay_stub_def
        stub_client_def hexutil_Encode_def hex_EncodeToString_def hexdigit_def Let_def
        spec_domain_separator_def)
  show ?thesis
    using requestRPC_signs_by_the_pipeline [OF m n s, of "[]"]
    by (simp add: stub_client_def)
qed

text \<open>
  C3 (as the code has it). When the relay's reply is a well-formed JSON-RPC error object
  (\<open>spec_wellformed_error_reply\<close>: members in any order, the id null or a non-negative
  integer below \<open>2 ^ 63\<close>, an optional \<^verbatim>\<open>data\<close> member), no gateway method returns an
  error: \<^verbatim>\<open>SendBundle\<close>, \<^verbatim>\<open>CallBundle\<close>, \<^verbatim>\<open>SendPrivateTransaction\<close> and
  \<^verbatim>\<open>GetUserStats\<close> each return a decoded response and a nil error. The response of
  \<^verbatim>\<open>CallBundle\<close> carries the code and the message of the reply in its \<^verbatim>\<open>Error\<close>
  field, with a nil \<^verbatim>\<open>Result\<close>. The package has no error value for a relay error.
  (A reply whose id is a string is not decoded at all: \<open>string_id_reply_is_decode_error\<close>.)
\<close>

theorem gateway_returns_relay_error_reply_as_success:
  assumes "\<forall>rq. \<exists>p. json_Marshal E rq = Inr p"
      and "http_NewRequest E (Rpc f) = None"
      and "\<forall>req. client_Do E req = Inr res"
      and "json_parse E res = Some j"
      and "spec_wellformed_error_reply j"
      and "spec_reply_code j = Some c"
      and "spec_reply_message j = Some msg"
      and "transactions \<noteq> []"
  shows "(\<exists>r. fst (SendBundle E f transactions blockNumber tr) = Return (Inr r))
       \<and> (\<exists>r. fst (CallBundle E f transactions blockNumber tr) = Return (Inr r)
                \<and> cbr_Result r = None \<and> cbr_Error r = Some \<lparr>Code = c, Message = msg\<rparr>)
       \<and> (\<exists>r. fst (SendPrivateTransaction E f tx maxBlockNumber tr) = Return (Inr r))
       \<and> (\<exists>r. fst (GetUserStats E f blockNumber tr) = Return (Inr r))"
proof -
  have body: "fst (requestRPC E f M ps tr) = Return res" for M ps
    using assms(1-3) by (rule requestRPC_returns_body)
  have sb: "\<exists>r. fst (SendBundle E f transactions blockNumber tr) = Return (Inr r)"
    using decode_wellformed_error_reply(1) [OF assms(5)]
    by (auto simp: SendBundle_after_requestRPC [OF assms(8)] body json_Unmarshal_def assms(4))
  have cb: "\<exists>r. fst (CallBundle E f transactions blockNumber tr) = Return (Inr r)
                \<and> cbr_Result r = None \<and> cbr_Error r = Some \<lparr>Code = c, Message = msg\<rparr>"
    using decode_wellformed_error_reply_CallBundle [OF assms(5-7)]
    by (auto simp: CallBundle_after_requestRPC [OF assms(8)] body json_Unmarshal_def assms(4))
  have pt: "\<exists>r. fst (SendPrivateTransaction E f tx maxBlockNumber tr) = Return (Inr r)"
    using decode_wellformed_error_reply(2) [OF assms(5)]
    by (auto simp: SendPrivateTransaction_after_requestRPC body json_Unmarshal_def assms(4))
  have us: "\<exists>r. fst (GetUserStats E f blockNumber tr) = Return (Inr r)"
    using decode_wellformed_error_reply(3) [OF assms(5)]
    by (auto simp: GetUserStats_after_requestRPC body json_Unmarshal_def assms(4))
  from sb cb pt us show ?thesis by blast
qed

theorem gateway_returns_relay_error_reply_as_success_witness:
  "((\<exists>r. fst (SendBundle relay_stub stub_client [''0x02f86b''] 1 []) = Return (Inr r))
    \<and> (\<exists>r. fst (CallBundle relay_stub stub_client [''0x02f86b''] 1 []) = Return (Inr r)
            \<and> cbr_Result r = None
            \<and> cbr_Error r = Some \<lparr>Code = - 32000, Message = ''bundle too large''\<rparr>)
    \<and> (\<exists>r. fst (SendPrivateTransaction relay_stub stub_client ''0x02f86b'' ''0x10'' []) = Return (Inr r))
    \<and> (\<exists>r. fst (GetUserStats relay_stub stub_client 1 []) = Return (Inr r)))
   \<and> ((\<exists>r. fst (SendBundle full_reply_stub stub_client [''0x02f86b''] 1 []) = Return (Inr r))
    \<and> (\<exists>r. fst (CallBundle full_reply_stub stub_client [''0x02f86b''] 1 []) = Return (Inr r)
            \<and> cbr_Result r = None
            \<and> cbr_Error r = Some \<lparr>Code = - 32000, Message = ''bundle too large''\<rparr>)
    \<and> (\<exists>r. fst (SendPrivateTransaction full_reply_stub stub_client ''0x02f86b'' ''0x10'' []) = Return (Inr r))
    \<and> (\<exists>r. fst (GetUserStats full_reply_stub stub_client 1 []) = Return (Inr r)))"
proof -
  have c: "ParseInt ''-32000'' = Some (- 32000)"
    by (simp add: ParseInt_def is_digits_def digits_value_def)
  have t: "[''0x02f86b''] \<noteq> []" by simp
  have m: "\<forall>rq. \<exists>p. json_Marshal relay_stub rq = Inr p"
    by (simp add: relay_stub_def)
  have n: "http_NewRequest relay_stub (Rpc stub_client) = None"
    by (simp add: relay_stub_def stub_client_def)
  have d: "\<forall>req. client_Do relay_stub req = Inr example_body"
    by (simp add: relay_stub_def)
  have p: "json_parse relay_stub example_body = Some (spec_error_reply False ''-32000'' ''bundle too large'')"
    by (simp add: relay_stub_def)
  have m': "\<forall>rq. \<exists>p. json_Marshal full_reply_stub rq = Inr p"
    by (simp add: full_reply_stub_def relay_stub_def)
  have n': "http_NewRequest full_reply_stub (Rpc stub_client) = None"
    by (simp add: full_reply_stub_def relay_stub_def stub_client_def)
  have d': "\<forall>req. client_Do full_reply_stub req = Inr example_body_full"
    by (simp add: full_reply_stub_def)
  have p': "json_parse full_reply_stub example_body_full = Some example_doc_full"
    by (simp add: full_reply_stub_def)
  have w': "spec_wellformed_error_reply example_doc_full"
    by (simp add: spec_wellformed_error_reply_def example_doc_full_def c)
  have c': "spec_reply_code example_doc_full = Some (- 32000)"
    by (simp add: spec_reply_code_def spec_error_code_def example_doc_full_def c)
  have g': "spec_reply_message example_doc_full = Some ''bundle too large''"
    by (simp add: spec_reply_message_def spec_error_message_def example_doc_full_def)
  show ?thesis
    using gateway_returns_relay_error_reply_as_success
            [OF m n d p spec_error_reply_wellformed [OF c] t]
          gateway_returns_relay_error_reply_as_success [OF m' n' d' p' w' c' g' t]
    by blast
qed

text \<open>
  The relay answers \<^verbatim>\<open>{"error":{"code":-32000,"message":"bundle too large"}}\<close> and
  \<^verbatim>\<open>SendBundle\<close> returns a response with a nil \<^verbatim>\<open>Result\<close> and a nil error: the code and
  the message are gone, since \<^verbatim>\<open>SendBundleResponse\<close> has no field for them.
\<close>

theorem SendBundle_drops_relay_error_object:
  "client_Do relay_stub \<lparr>url = '''', body = '''', headers = []\<rparr> = Inr example_body
   \<and> json_parse relay_stub example_body
       = Some (JObj [(''error'', JObj [(''code'', JNum ''-32000''),
                                       (''message'', JStr ''bundle too large'')])])
   \<and> fst (SendBundle relay_stub stub_client [''0x02f86b''] 1 [])
       = Return (Inr \<lparr>sb_ID = 0, sb_Version = '''', sb_Result = None\<rparr>)"
  by (simp add: SendBundle_def requestRPC_def relay_stub_def stub_client_def json_Unmarshal_def
      store_struct_def spec_error_reply_def SendBundleResponse_field_def key_is_simps
      new_SendBundleResponse_def Let_def)




text \<open>
  C5. For every block number, \<^verbatim>\<open>SendBundle\<close> with an empty transaction sequence returns
  the error \<^verbatim>\<open>errorTransaction\<close> (the package's empty-bundle error) and leaves the trace
  as it was: no request struct was serialized, the signer was not called and no request
  reached the network.
\<close>

theorem SendBundle_empty_fails_before_dispatch:
  "SendBundle E f [] blockNumber tr = (Return (Inl errorTransaction), tr)"
  by (simp add: SendBundle_def)

text \<open>
  C6 (the code departs from it). The specification asks that every block number in the
  request parameters be a \<^verbatim>\<open>0x\<close>-prefixed minimal hex string, for \<^verbatim>\<open>GetUserStats\<close>
  too. In the code,
  \<^verbatim>\<open>HextoBlockNumber\<close> gives \<^verbatim>\<open>"0xff"\<close> for 255 and \<^verbatim>\<open>"0x0"\<close> for 0, and
  \<^verbatim>\<open>SendBundle\<close> and \<^verbatim>\<open>CallBundle\<close> call it, but \<^verbatim>\<open>GetUserStats(255)\<close> hands the bare
  \<^verbatim>\<open>uint64\<close> to \<^verbatim>\<open>requestRPC\<close>: the parameters given to \<^verbatim>\<open>json.Marshal\<close> are the number
  255 (twice), which it writes in decimal.
\<close>

theorem GetUserStats_sends_raw_block_number:
  "take 1 (snd (GetUserStats relay_stub stub_client 255 [])) =
     [Marshalled \<lparr>JsonRPC = ''2.0'', Id = 1, Method = ''flashbots_getUserStats'',
        Params = [PUint64 255, PUint64 255]\<rparr>]
   \<and> HextoBlockNumber 255 = ''0xff'' \<and> HextoBlockNumber 0 = ''0x0''"
  by (simp add: GetUserStats_def requestRPC_def requestArgs_def relay_stub_def stub_client_def
      MethodGetUserStats_def HextoBlockNumber_def hexutil_EncodeUint64_def FormatUint16.simps
      hexdigit_def Let_def)

text \<open>
  C7 (as the code has it). \<^verbatim>\<open>SendPrivateTransaction\<close> checks nothing: for every raw
  transaction, the empty string included, it builds \<^verbatim>\<open>SendPrivateTx\<close> from its two
  arguments and hands it to \<^verbatim>\<open>requestRPC\<close>; whenever serialization and the construction
  of the HTTP request succeed, the signer is called once and one request reaches the
  network.
\<close>

theorem SendPrivateTransaction_dispatches_any_tx:
  "(\<exists>rest. snd (SendPrivateTransaction E f tx maxBlockNumber tr)
        = tr @ Marshalled (requestArgs MethodSendPrivateTransaction
                 [PSendPrivateTx \<lparr>Transaction = tx, MaxBlockNumber = maxBlockNumber,
                    Preferences = None\<rparr>]) # rest)
   \<and> (json_Marshal E (requestArgs MethodSendPrivateTransaction
                 [PSendPrivateTx \<lparr>Transaction = tx, MaxBlockNumber = maxBlockNumber,
                    Preferences = None\<rparr>]) = Inr payload
        \<and> http_NewRequest E (Rpc f) = None
       \<longrightarrow> network_calls (snd (SendPrivateTransaction E f tx maxBlockNumber tr)) = Suc (network_calls tr)
           \<and> sign_calls (snd (SendPrivateTransaction E f tx maxBlockNumber tr)) = Suc (sign_calls tr))"
proof -
  let ?ps = "[PSendPrivateTx \<lparr>Transaction = tx, MaxBlockNumber = maxBlockNumber, Preferences = None\<rparr>]"
  have s: "snd (SendPrivateTransaction E f tx maxBlockNumber tr)
         = snd (requestRPC E f MethodSendPrivateTransaction ?ps tr)"
    by (simp add: SendPrivateTransaction_def Let_def split: prod.splits outcome.splits)
  show ?thesis
  proof (intro conjI impI)
    show "\<exists>rest. snd (SendPrivateTransaction E f tx maxBlockNumber tr)
        = tr @ Marshalled (requestArgs MethodSendPrivateTransaction ?ps) # rest"
      unfolding s by (rule requestRPC_trace_prefix)
  next
    assume a: "json_Marshal E (requestArgs MethodSendPrivateTransaction ?ps) = Inr payload
        \<and> http_NewRequest E (Rpc f) = None"
    then have m: "json_Marshal E (requestArgs MethodSendPrivateTransaction ?ps) = Inr payload"
      and n: "http_NewRequest E (Rpc f) = None" by simp_all
    show "network_calls (snd (SendPrivateTransaction E f tx maxBlockNumber tr)) = Suc (network_calls tr)"
      unfolding s by (simp add: requestRPC_dispatch [OF m n] Let_def network_calls_def)
    show "sign_calls (snd (SendPrivateTransaction E f tx maxBlockNumber tr)) = Suc (sign_calls tr)"
      unfolding s by (simp add: requestRPC_dispatch [OF m n] Let_def sign_calls_def)
  qed
qed

theorem SendPrivateTransaction_dispatches_any_tx_witness:
  "network_calls (snd (SendPrivateTransaction relay_stub stub_client '''' ''0x10'' []))
     = Suc (network_calls [])
   \<and> sign_calls (snd (SendPrivateTransaction relay_stub stub_client '''' ''0x10'' []))
     = Suc (sign_calls [])"
proof -
  have "json_Marshal relay_stub (requestArgs MethodSendPrivateTransaction
                 [PSendPrivateTx \<lparr>Transaction = '''', MaxBlockNumber = ''0x10'',
                    Preferences = None\<rparr>]) = Inr ''eth_sendPrivateTransaction''
        \<and> http_NewRequest relay_stub (Rpc stub_client) = None"
    by (simp add: relay_stub_def stub_client_def requestArgs_def MethodSendPrivateTransaction_def)
  then show ?thesis
    using SendPrivateTransaction_dispatches_any_tx
      [of relay_stub stub_client "''''" "''0x10''" "[]" "''eth_sendPrivateTransaction''"]
    by blast
qed

text \<open>
  With the empty string as raw transaction, \<^verbatim>\<open>SendPrivateTransaction\<close> performs one
  network call and returns the decoded reply with a nil error, not an error for a missing
  argument.
\<close>

theorem SendPrivateTransaction_empty_tx_reaches_network:
  "network_calls (snd (SendPrivateTransaction relay_stub stub_client '''' ''0x10'' [])) = 1
   \<and> fst (SendPrivateTransaction relay_stub stub_client '''' ''0x10'' [])
       = Return (Inr \<lparr>pt_JsonRPC = '''', pt_Id = 0, pt_Result = ''''\<rparr>)"
  by (simp add: SendPrivateTransaction_def requestRPC_def relay_stub_def stub_client_def
      network_calls_def json_Unmarshal_def store_struct_def spec_error_reply_def
      SendPrivateTxResponse_field_def key_is_simps new_SendPrivateTxResponse_def Let_def)

text \<open>
  C8 (the code departs from it). The specification asks that an unknown network label
  never yield a client with an empty endpoint. In the code,
  \<^verbatim>\<open>RelayDefaultRPC("ropsten")\<close> returns the empty URL
  and an error, and \<^verbatim>\<open>New("ropsten")\<close>, which discards that error
  (\<^verbatim>\<open>rpc, _ := RelayDefaultRPC(relayRPC)\<close>), returns a client whose \<^verbatim>\<open>Rpc\<close> is empty,
  in both copies of \<^verbatim>\<open>New\<close>.
\<close>

theorem New_unknown_network_empty_endpoint:
  "RelayDefaultRPC ''ropsten''
     = ('''', Some (ErrorNew ''The netType is wrong!:%!(EXTRA string=ropsten)''))
   \<and> New relay_stub ''ropsten'' = Return \<lparr>Rpc = '''', PrivateKey = 1\<rparr>
   \<and> New_Flashbot_go relay_stub ''ropsten'' = Return \<lparr>Rpc = '''', PrivateKey = 1\<rparr>"
  by (simp add: New_def New_Flashbot_go_def New_from_def RelayDefaultRPC_def HexToECDSA_def
      relay_stub_def stub_key_hex_def)

text \<open>
  C9. For every non-empty sequence of transaction strings, the parameters that
  \<^verbatim>\<open>SendBundle\<close> builds and hands to the serializer hold that sequence unchanged: the same
  elements in the same order. The request struct is the first thing the call adds to the
  trace; its method is \<^verbatim>\<open>eth_sendBundle\<close> and every parameter object in it is a
  \<^verbatim>\<open>SendBundleParams\<close> whose \<^verbatim>\<open>Transactions\<close> is the caller's list.
\<close>

theorem SendBundle_preserves_transactions:
  assumes "transactions \<noteq> []"
  shows "\<exists>rq rest. snd (SendBundle E f transactions blockNumber tr) = tr @ Marshalled rq # rest
           \<and> Method rq = MethodSendBundle \<and> Params rq \<noteq> []
           \<and> (\<forall>p \<in> set (Params rq). \<exists>a. p = PSendBundle a \<and> Transactions a = transactions)"
proof -
  let ?args = "\<lparr>Transactions = transactions, BlockNumber = HextoBlockNumber blockNumber,
                 MinTimestamp = 0, MaxTimestamp = 0, RevertingTxHashes = []\<rparr>"
  obtain rest where r: "snd (requestRPC E f MethodSendBundle [PSendBundle ?args] tr)
      = tr @ Marshalled (requestArgs MethodSendBundle [PSendBundle ?args]) # rest"
    using requestRPC_trace_prefix by blast
  have "snd (SendBundle E f transactions blockNumber tr)
      = snd (requestRPC E f MethodSendBundle [PSendBundle ?args] tr)"
    using assms by (simp add: SendBundle_def Let_def split: prod.splits outcome.splits)
  with r show ?thesis
    by (intro exI [of _ "requestArgs MethodSendBundle [PSendBundle ?args]"] exI [of _ rest])
       (simp add: requestArgs_def)
qed

theorem SendBundle_preserves_transactions_witness:
  "\<exists>rq rest. snd (SendBundle relay_stub stub_client [''0xaa'', ''0xbb'', ''0xaa''] 7 [])
                = Marshalled rq # rest
           \<and> Method rq = MethodSendBundle \<and> Params rq \<noteq> []
           \<and> (\<forall>p \<in> set (Params rq).
                 \<exists>a. p = PSendBundle a \<and> Transactions a = [''0xaa'', ''0xbb'', ''0xaa''])"
proof -
  have ne: "[''0xaa'', ''0xbb'', ''0xaa''] \<noteq> []" by simp
  show ?thesis
    using SendBundle_preserves_transactions [OF ne, of relay_stub stub_client 7 "[]"]
    by simp
qed

text \<open>
  C10. For every transaction list and every block number, the parameters that
  \<^verbatim>\<open>CallBundle\<close> builds have the state block reference \<^verbatim>\<open>"latest"\<close> and the timestamp
  1615920932: \<^verbatim>\<open>CallBundle\<close> takes only the transactions and the block number, and every
  other field of the parameter object is fixed. For a non-empty list the request struct
  handed to the serializer holds only that parameter object; for the empty list the call
  returns \<^verbatim>\<open>errorTransaction\<close> and builds nothing.
\<close>

theorem CallBundle_fixed_state_view:
  "(transaction \<noteq> [] \<longrightarrow>
      (\<exists>rq rest. snd (CallBundle E f transaction blockNumber tr) = tr @ Marshalled rq # rest
           \<and> Method rq = MethodCallBundle \<and> Params rq \<noteq> []
           \<and> (\<forall>p \<in> set (Params rq).
                  p = PCallBundle \<lparr>cb_Transactions = transaction,
                                   cb_BlockNumber = HextoBlockNumber blockNumber,
                                   StateBlockNumber = ''latest'',
                                   Timestamp = 1615920932\<rparr>)))
   \<and> (transaction = [] \<longrightarrow>
        CallBundle E f transaction blockNumber tr = (Return (Inl errorTransaction), tr))"
proof (intro conjI impI)
  assume ne: "transaction \<noteq> []"
  let ?args = "\<lparr>cb_Transactions = transaction, cb_BlockNumber = HextoBlockNumber blockNumber,
                 StateBlockNumber = ''latest'', Timestamp = 1615920932\<rparr>"
  obtain rest where r: "snd (requestRPC E f MethodCallBundle [PCallBundle ?args] tr)
      = tr @ Marshalled (requestArgs MethodCallBundle [PCallBundle ?args]) # rest"
    using requestRPC_trace_prefix by blast
  have "snd (CallBundle E f transaction blockNumber tr)
      = snd (requestRPC E f MethodCallBundle [PCallBundle ?args] tr)"
    using ne by (simp add: CallBundle_def Let_def split: prod.splits outcome.splits)
  with r show "\<exists>rq rest. snd (CallBundle E f transaction blockNumber tr) = tr @ Marshalled rq # rest
           \<and> Method rq = MethodCallBundle \<and> Params rq \<noteq> []
           \<and> (\<forall>p \<in> set (Params rq). p = PCallBundle ?args)"
    by (intro exI [of _ "requestArgs MethodCallBundle [PCallBundle ?args]"] exI [of _ rest])
       (simp add: requestArgs_def)
next
  assume "transaction = []"
  then show "CallBundle E f transaction blockNumber tr = (Return (Inl errorTransaction), tr)"
    by (simp add: CallBundle_def)
qed

theorem CallBundle_fixed_state_view_witness:
  "(\<exists>rq rest. snd (CallBundle relay_stub stub_client [''0xaa'', ''0xbb''] 255 [])
                 = Marshalled rq # rest
           \<and> Method rq = MethodCallBundle \<and> Params rq \<noteq> []
           \<and> (\<forall>p \<in> set (Params rq).
                  p = PCallBundle \<lparr>cb_Transactions = [''0xaa'', ''0xbb''],
                                   cb_BlockNumber = HextoBlockNumber 255,
                                   StateBlockNumber = ''latest'',
                                   Timestamp = 1615920932\<rparr>))
   \<and> CallBundle relay_stub stub_client [] 255 [] = (Return (Inl errorTransaction), [])"
  using CallBundle_fixed_state_view [of "[''0xaa'', ''0xbb'']" relay_stub stub_client 255 "[]"]
        CallBundle_fixed_state_view [of "[]" relay_stub stub_client 255 "[]"]
  by simp

end
